theory Spec2Isabelle
  imports Complex_Main "HOL-Library.Word"
begin

unbundle bit_operations_syntax

section \<open>Lead automation workflow (main.py)\<close>

text \<open>
  A shallow embedding of \<^verbatim>\<open>src/main.py\<close>: the lead validator, the \<^verbatim>\<open>Lead\<close> and
  \<^verbatim>\<open>ProcessedLead\<close> dataclasses, the Groq scorer, the Google Sheets logger, the calendar
  manager, the notification service and the workflow orchestrator \<^verbatim>\<open>process_lead\<close>.

  Conventions.
  \<^item> Python text is a \<open>string\<close> of 8-bit characters; the model is exact for ASCII text,
    where \<^verbatim>\<open>str.encode()\<close> is the identity on the characters and \<^verbatim>\<open>\d\<close> is \<open>[0-9]\<close>.
  \<^item> A \<^verbatim>\<open>dict\<close> is an association list read with \<open>map_of\<close> (the first binding of a key
    is the one in force). The payload of \<^verbatim>\<open>process_lead\<close> is a \<^verbatim>\<open>Dict[str, str]\<close>, as the
    source declares it: keys and values are text.
  \<^item> An exception is a value of type \<open>exn\<close>; a function that can raise returns
    \<open>exn + 'a\<close>, and every \<^verbatim>\<open>try/except\<close> of the source is a case distinction on it.
  \<^item> The third-party services (Groq, Google Sheets, Google Calendar, Discord, SMTP) and
    the library functions whose code is not part of the repository
    (\<^verbatim>\<open>datetime.fromisoformat\<close>, \<^verbatim>\<open>datetime.now\<close>, \<^verbatim>\<open>float(str)\<close>) are parameters: the records
    \<open>platform\<close> and \<open>services\<close>, and the \<open>outages\<close> of a \<open>spreadsheet\<close>.
\<close>

subsection \<open>Text helpers\<close>

definition truthy :: "string option \<Rightarrow> bool" where
  \<comment> \<open>Python truth value of an \<^verbatim>\<open>Optional[str]\<close>: \<^verbatim>\<open>None\<close> and \<^verbatim>\<open>""\<close> are false.\<close>
  "truthy v = (case v of None \<Rightarrow> False | Some s \<Rightarrow> s \<noteq> [])"

definition lower_char :: "char \<Rightarrow> char" where
  \<comment> \<open>\<^verbatim>\<open>str.lower()\<close> on one ASCII character\<close>
  "lower_char c =
     (case map_of (zip ''ABCDEFGHIJKLMNOPQRSTUVWXYZ'' ''abcdefghijklmnopqrstuvwxyz'') c of
        Some l \<Rightarrow> l
      | None \<Rightarrow> c)"

definition lower :: "string \<Rightarrow> string" where
  "lower s = map lower_char s"

definition replace_char :: "char \<Rightarrow> string \<Rightarrow> string \<Rightarrow> string" where
  \<comment> \<open>\<^verbatim>\<open>s.replace(old, new)\<close> for a one-character \<^verbatim>\<open>old\<close>: every occurrence is replaced.\<close>
  "replace_char old new s = concat (map (\<lambda>c. if c = old then new else [c]) s)"

subsection \<open>hashlib.md5\<close>

text \<open>
  \<^verbatim>\<open>hashlib.md5(data).hexdigest()\<close>, written out after RFC 1321 on 32-bit words so that a
  lead id can be computed. Bytes are natural numbers below 256.
\<close>

type_synonym u32 = "32 word"

type_synonym md5_state = "u32 \<times> u32 \<times> u32 \<times> u32"

definition md5_shifts :: "nat list" where
  "md5_shifts =
     [7, 12, 17, 22, 7, 12, 17, 22, 7, 12, 17, 22, 7, 12, 17, 22,
      5, 9, 14, 20, 5, 9, 14, 20, 5, 9, 14, 20, 5, 9, 14, 20,
      4, 11, 16, 23, 4, 11, 16, 23, 4, 11, 16, 23, 4, 11, 16, 23,
      6, 10, 15, 21, 6, 10, 15, 21, 6, 10, 15, 21, 6, 10, 15, 21]"

definition md5_sines :: "u32 list" where
  "md5_sines =
     [0xd76aa478, 0xe8c7b756, 0x242070db, 0xc1bdceee,
      0xf57c0faf, 0x4787c62a, 0xa8304613, 0xfd469501,
      0x698098d8, 0x8b44f7af, 0xffff5bb1, 0x895cd7be,
      0x6b901122, 0xfd987193, 0xa679438e, 0x49b40821,
      0xf61e2562, 0xc040b340, 0x265e5a51, 0xe9b6c7aa,
      0xd62f105d, 0x02441453, 0xd8a1e681, 0xe7d3fbc8,
      0x21e1cde6, 0xc33707d6, 0xf4d50d87, 0x455a14ed,
      0xa9e3e905, 0xfcefa3f8, 0x676f02d9, 0x8d2a4c8a,
      0xfffa3942, 0x8771f681, 0x6d9d6122, 0xfde5380c,
      0xa4beea44, 0x4bdecfa9, 0xf6bb4b60, 0xbebfbc70,
      0x289b7ec6, 0xeaa127fa, 0xd4ef3085, 0x04881d05,
      0xd9d4d039, 0xe6db99e5, 0x1fa27cf8, 0xc4ac5665,
      0xf4292244, 0x432aff97, 0xab9423a7, 0xfc93a039,
      0x655b59c3, 0x8f0ccc92, 0xffeff47d, 0x85845dd1,
      0x6fa87e4f, 0xfe2ce6e0, 0xa3014314, 0x4e0811a1,
      0xf7537e82, 0xbd3af235, 0x2ad7d2bb, 0xeb86d391]"

definition rotl32 :: "nat \<Rightarrow> u32 \<Rightarrow> u32" where
  "rotl32 n x = push_bit n x OR drop_bit (32 - n) x"

definition md5_mix :: "nat \<Rightarrow> u32 \<Rightarrow> u32 \<Rightarrow> u32 \<Rightarrow> u32" where
  "md5_mix i b c d =
     (if i < 16 then (b AND c) OR (NOT b AND d)
      else if i < 32 then (d AND b) OR (NOT d AND c)
      else if i < 48 then b XOR c XOR d
      else c XOR (b OR NOT d))"

definition md5_index :: "nat \<Rightarrow> nat" where
  "md5_index i =
     (if i < 16 then i
      else if i < 32 then (5 * i + 1) mod 16
      else if i < 48 then (3 * i + 5) mod 16
      else (7 * i) mod 16)"

definition md5_round :: "u32 list \<Rightarrow> md5_state \<Rightarrow> nat \<Rightarrow> md5_state" where
  "md5_round m st i =
     (case st of (a, b, c, d) \<Rightarrow>
        let f = md5_mix i b c d + a + md5_sines ! i + m ! md5_index i
        in (d, b + rotl32 (md5_shifts ! i) f, b, c))"

definition md5_block :: "md5_state \<Rightarrow> u32 list \<Rightarrow> md5_state" where
  "md5_block st m =
     (case st of (a0, b0, c0, d0) \<Rightarrow>
        case foldl (md5_round m) st [0..<64] of (a, b, c, d) \<Rightarrow>
          (a0 + a, b0 + b, c0 + c, d0 + d))"

fun words_le :: "nat list \<Rightarrow> u32 list" where
  "words_le (b0 # b1 # b2 # b3 # bs) =
     of_nat (b0 + 256 * b1 + 65536 * b2 + 16777216 * b3) # words_le bs"
| "words_le bs = []"

definition bytes_le :: "nat \<Rightarrow> nat \<Rightarrow> nat list" where
  "bytes_le k n = map (\<lambda>i. (n div 256 ^ i) mod 256) [0..<k]"

definition md5_pad :: "nat list \<Rightarrow> nat list" where
  "md5_pad msg =
     msg @ [128] @ replicate ((119 - length msg mod 64) mod 64) 0
         @ bytes_le 8 (8 * length msg)"

function md5_blocks :: "md5_state \<Rightarrow> nat list \<Rightarrow> md5_state" where
  "md5_blocks st bs =
     (if bs = [] then st
      else md5_blocks (md5_block st (words_le (take 64 bs))) (drop 64 bs))"
  by pat_completeness auto
termination
  by (relation "measure (\<lambda>(st, bs). length bs)") auto

declare md5_blocks.simps [simp del]

definition md5_digest :: "nat list \<Rightarrow> nat list" where
  "md5_digest msg =
     (case md5_blocks (0x67452301, 0xefcdab89, 0x98badcfe, 0x10325476) (md5_pad msg)
      of (a, b, c, d) \<Rightarrow> concat (map (\<lambda>w. bytes_le 4 (unat w)) [a, b, c, d]))"

definition hex_digit :: "nat \<Rightarrow> char" where
  "hex_digit n = ''0123456789abcdef'' ! (n mod 16)"

definition hex_byte :: "nat \<Rightarrow> string" where
  "hex_byte b = [hex_digit (b div 16), hex_digit b]"

definition encode :: "string \<Rightarrow> nat list" where
  "encode s = map of_char s"

definition md5_hexdigest :: "string \<Rightarrow> string" where
  "md5_hexdigest s = concat (map hex_byte (md5_digest (encode s)))"

subsection \<open>Exceptions, floats and JSON values\<close>

datatype exn =
    TypeError string
  | ValueError
  | KeyError
  | OverflowError
  | JSONDecodeError
  | ServiceFault

fun exn_str :: "exn \<Rightarrow> string" where
  \<comment> \<open>\<^verbatim>\<open>str(e)\<close>; only the message of a \<^verbatim>\<open>TypeError\<close> reaches a caller.\<close>
  "exn_str (TypeError msg) = msg"
| "exn_str e = []"

datatype pyfloat = Finite real | PosInf | NegInf | NaN

fun py_lt :: "pyfloat \<Rightarrow> pyfloat \<Rightarrow> bool" where
  \<comment> \<open>\<^verbatim>\<open>a < b\<close> on floats: every comparison with NaN is false.\<close>
  "py_lt (Finite a) (Finite b) = (a < b)"
| "py_lt (Finite a) PosInf = True"
| "py_lt NegInf (Finite b) = True"
| "py_lt NegInf PosInf = True"
| "py_lt a b = False"

definition py_min :: "pyfloat \<Rightarrow> pyfloat \<Rightarrow> pyfloat" where
  \<comment> \<open>\<^verbatim>\<open>min(a, b)\<close>: the first argument unless the second is smaller.\<close>
  "py_min a b = (if py_lt b a then b else a)"

definition py_max :: "pyfloat \<Rightarrow> pyfloat \<Rightarrow> pyfloat" where
  \<comment> \<open>\<^verbatim>\<open>max(a, b)\<close>: the first argument unless the second is greater.\<close>
  "py_max a b = (if py_lt a b then b else a)"

datatype pyval =
    PNone
  | PBool bool
  | PInt int
  | PFloat pyfloat
  | PStr string
  | PList "pyval list"
  | PDict "(string \<times> pyval) list"

subsection \<open>The clock and the library parsers\<close>

text \<open>
  A \<^verbatim>\<open>datetime\<close> is its wall-clock reading in microseconds since 0001-01-01T00:00:00 and
  its UTC offset in microseconds when it is timezone-aware.
\<close>

record pydatetime =
  wall :: int
  tzinfo :: "int option"

record platform =
  fromisoformat :: "string \<Rightarrow> pydatetime option"
  isoformat :: "pydatetime \<Rightarrow> string"
  float_of_str :: "string \<Rightarrow> pyfloat option"
  utc_now :: int
  local_offset :: int

definition datetime_now :: "platform \<Rightarrow> int option \<Rightarrow> pydatetime" where
  \<comment> \<open>\<^verbatim>\<open>datetime.now(tz)\<close>, and \<^verbatim>\<open>datetime.now()\<close> for \<open>None\<close>.\<close>
  "datetime_now pf tz =
     (case tz of
        None \<Rightarrow> \<lparr>wall = utc_now pf + local_offset pf, tzinfo = None\<rparr>
      | Some off \<Rightarrow> \<lparr>wall = utc_now pf + off, tzinfo = Some off\<rparr>)"

definition instant :: "pydatetime \<Rightarrow> int" where
  "instant d = wall d - (case tzinfo d of None \<Rightarrow> 0 | Some off \<Rightarrow> off)"

definition dt_less :: "pydatetime \<Rightarrow> pydatetime \<Rightarrow> bool" where
  \<comment> \<open>\<^verbatim>\<open>a < b\<close> for two datetimes that are both naive or both aware.\<close>
  "dt_less a b = (instant a < instant b)"

definition minus_minutes :: "pydatetime \<Rightarrow> int \<Rightarrow> pydatetime" where
  "minus_minutes d n = d\<lparr>wall := wall d - n * 60000000\<rparr>"

definition datetime_max :: int where
  \<comment> \<open>9999-12-31T23:59:59.999999\<close>
  "datetime_max = 3652059 * 86400000000 - 1"

definition plus_hours :: "pydatetime \<Rightarrow> int \<Rightarrow> exn + pydatetime" where
  "plus_hours d n =
     (if wall d + n * 3600000000 > datetime_max then Inl OverflowError
      else Inr (d\<lparr>wall := wall d + n * 3600000000\<rparr>))"

subsection \<open>Lead and ProcessedLead\<close>

record Lead =
  name :: string
  email :: string
  phone :: string
  car_model :: string
  appointment_datetime :: string
  intent_score :: "string option"
  timestamp :: "string option"
  lead_id :: "string option"

definition post_init :: "platform \<Rightarrow> Lead \<Rightarrow> Lead" where
  \<comment> \<open>\<^verbatim>\<open>Lead.__post_init__\<close>\<close>
  "post_init pf l =
     (let l1 = (if \<not> truthy (timestamp l)
                then l\<lparr>timestamp := Some (isoformat pf (datetime_now pf None))\<rparr>
                else l)
      in if \<not> truthy (lead_id l1)
         then l1\<lparr>lead_id := Some (take 12 (md5_hexdigest (lower (email l1 @ phone l1))))\<rparr>
         else l1)"

definition Lead_fields :: "string list" where
  "Lead_fields =
     [''name'', ''email'', ''phone'', ''car_model'', ''appointment_datetime'',
      ''intent_score'', ''timestamp'', ''lead_id'']"

definition unexpected_keyword :: "string \<Rightarrow> string \<Rightarrow> exn" where
  "unexpected_keyword cls k =
     TypeError (cls @ ''.__init__() got an unexpected keyword argument '' @
                [CHR 0x27] @ k @ [CHR 0x27])"

definition quoted :: "string \<Rightarrow> string" where
  "quoted s = [CHR 0x27] @ s @ [CHR 0x27]"

fun name_list :: "string list \<Rightarrow> string" where
  \<comment> \<open>the way CPython lists argument names in a message\<close>
  "name_list [] = []"
| "name_list [a] = quoted a"
| "name_list [a, b] = quoted a @ '' and '' @ quoted b"
| "name_list names =
     concat (map (\<lambda>n. quoted n @ '', '') (butlast names)) @ ''and '' @ quoted (last names)"

definition missing_arguments :: "string \<Rightarrow> string list \<Rightarrow> exn" where
  \<comment> \<open>the \<^verbatim>\<open>TypeError\<close> of a call that leaves out required arguments (fewer than ten)\<close>
  "missing_arguments cls names =
     TypeError (cls @ ''.__init__() missing '' @ [''0123456789'' ! (length names mod 10)]
                @ '' required positional argument'' @ (if length names = 1 then [] else ''s'')
                @ '': '' @ name_list names)"

definition Lead_init :: "platform \<Rightarrow> (string \<times> string) list \<Rightarrow> exn + Lead" where
  \<comment> \<open>\<^verbatim>\<open>Lead(**lead_data)\<close>: the generated \<^verbatim>\<open>__init__\<close>, then \<^verbatim>\<open>__post_init__\<close>.\<close>
  "Lead_init pf kw =
     (case filter (\<lambda>k. k \<notin> set Lead_fields) (map fst kw) of
        k # ks \<Rightarrow> Inl (unexpected_keyword ''Lead'' k)
      | [] \<Rightarrow>
         (case (map_of kw ''name'', map_of kw ''email'', map_of kw ''phone'',
                map_of kw ''car_model'', map_of kw ''appointment_datetime'') of
            (Some n, Some e, Some p, Some c, Some a) \<Rightarrow>
              Inr (post_init pf
                \<lparr>name = n, email = e, phone = p, car_model = c, appointment_datetime = a,
                 intent_score = map_of kw ''intent_score'',
                 timestamp = map_of kw ''timestamp'',
                 lead_id = map_of kw ''lead_id''\<rparr>)
          | other \<Rightarrow>
              Inl (missing_arguments ''Lead''
                     (filter (\<lambda>f. map_of kw f = None)
                        [''name'', ''email'', ''phone'', ''car_model'', ''appointment_datetime'']))))"

record ProcessedLead =
  p_name :: pyval
  p_phone :: pyval
  p_model :: pyval
  p_datetime :: pyval
  p_intent_score :: pyfloat

subsection \<open>LeadValidator\<close>

text \<open>
  The two patterns are sequences of repeated character classes between \<^verbatim>\<open>^\<close> and
  \<^verbatim>\<open>$\<close>. \<^verbatim>\<open>re.match\<close> succeeds iff the text splits into runs that fit the items in
  order; \<^verbatim>\<open>$\<close> matches at the end of the text and before a final newline.
\<close>

type_synonym cls = "char \<Rightarrow> bool"

datatype item =
    Lit char
  | Opt char
  | Plus cls
  | AtLeast nat cls
  | Between nat nat cls

fun bounds :: "item \<Rightarrow> cls \<times> nat \<times> nat option" where
  "bounds (Lit c) = ((\<lambda>x. x = c), 1, Some 1)"
| "bounds (Opt c) = ((\<lambda>x. x = c), 0, Some 1)"
| "bounds (Plus p) = (p, 1, None)"
| "bounds (AtLeast m p) = (p, m, None)"
| "bounds (Between m n p) = (p, m, Some n)"

fun spans :: "cls \<Rightarrow> nat \<Rightarrow> nat option \<Rightarrow> string \<Rightarrow> string list" where
  \<comment> \<open>the rests of the text after a run of between \<open>m\<close> and \<open>n\<close> characters of the class\<close>
  "spans p m n [] = (if m = 0 then [[]] else [])"
| "spans p m n (c # cs) =
     (if m = 0 then [c # cs] else []) @
     (if p c \<and> n \<noteq> Some 0 then spans p (m - 1) (map_option (\<lambda>k. k - 1) n) cs else [])"

fun re_match :: "item list \<Rightarrow> string \<Rightarrow> bool" where
  "re_match [] s = (s = [] \<or> s = [CHR 0x0A])"
| "re_match (i # items) s =
     list_ex (re_match items) (case bounds i of (p, m, n) \<Rightarrow> spans p m n s)"

definition in_range :: "char \<Rightarrow> char \<Rightarrow> cls" where
  "in_range lo hi c = ((of_char lo :: nat) \<le> of_char c \<and> (of_char c :: nat) \<le> of_char hi)"

definition alpha :: cls where
  "alpha c = (in_range CHR ''a'' CHR ''z'' c \<or> in_range CHR ''A'' CHR ''Z'' c)"

definition digit :: cls where
  "digit c = in_range CHR ''0'' CHR ''9'' c"

definition email_pattern :: "item list" where
  \<comment> \<open>\<^verbatim>\<open>^[a-zA-Z0-9._%+-]+@[a-zA-Z0-9.-]+\.[a-zA-Z]{2,}$\<close>\<close>
  "email_pattern =
     [Plus (\<lambda>c. alpha c \<or> digit c \<or> c \<in> set ''._%+-''),
      Lit CHR ''@'',
      Plus (\<lambda>c. alpha c \<or> digit c \<or> c \<in> set ''.-''),
      Lit CHR ''.'',
      AtLeast 2 alpha]"

definition phone_pattern :: "item list" where
  \<comment> \<open>\<^verbatim>\<open>^\+?1?\d{9,15}$\<close>\<close>
  "phone_pattern = [Opt CHR ''+'', Opt CHR ''1'', Between 9 15 digit]"

definition validate_email :: "string \<Rightarrow> bool" where
  "validate_email e = (if e = [] then False else re_match email_pattern e)"

definition validate_phone :: "string \<Rightarrow> bool" where
  "validate_phone p =
     (if p = [] then False
      else let clean_phone =
                 replace_char CHR '')'' [] (replace_char CHR ''('' []
                   (replace_char CHR '' '' [] (replace_char CHR ''-'' [] p)))
           in re_match phone_pattern clean_phone)"

datatype log_record =
    PastAppointment string
  | InvalidDatetime string

definition validate_datetime :: "platform \<Rightarrow> string \<Rightarrow> bool \<times> log_record list" where
  \<comment> \<open>the result and what the function logs\<close>
  "validate_datetime pf dt_string =
     (if dt_string = [] then (False, [])
      else case fromisoformat pf (replace_char CHR ''Z'' ''+00:00'' dt_string) of
             None \<Rightarrow> (False, [InvalidDatetime dt_string])
           | Some dt \<Rightarrow>
               let now = datetime_now pf (tzinfo dt)
               in (True, if dt_less dt (minus_minutes now 5)
                         then [PastAppointment dt_string] else []))"

definition required_fields :: "string list" where
  "required_fields = [''name'', ''email'', ''phone'', ''car_model'', ''appointment_datetime'']"

definition missing :: "(string \<times> string) list \<Rightarrow> string \<Rightarrow> bool" where
  \<comment> \<open>\<^verbatim>\<open>field not in data or not data[field]\<close>\<close>
  "missing data field = (case map_of data field of None \<Rightarrow> True | Some v \<Rightarrow> v = [])"

definition dict_get :: "(string \<times> string) list \<Rightarrow> string \<Rightarrow> string \<Rightarrow> string" where
  \<comment> \<open>\<^verbatim>\<open>data.get(key, default)\<close>\<close>
  "dict_get data k dflt = (case map_of data k of None \<Rightarrow> dflt | Some v \<Rightarrow> v)"

definition validate_lead_data :: "platform \<Rightarrow> (string \<times> string) list \<Rightarrow> bool \<times> string list" where
  "validate_lead_data pf data =
     (let errors = map (\<lambda>field. ''Missing required field: '' @ field)
                       (filter (missing data) required_fields);
          errors =
            (if errors = [] then
               errors
               @ (if \<not> validate_email (dict_get data ''email'' [])
                  then [''Invalid email format''] else [])
               @ (if \<not> validate_phone (dict_get data ''phone'' [])
                  then [''Invalid phone format''] else [])
               @ (if \<not> fst (validate_datetime pf (dict_get data ''appointment_datetime'' []))
                  then [''Invalid datetime format (use ISO 8601)''] else [])
             else errors)
      in (length errors = 0, errors))"

subsection \<open>GroqProcessor\<close>

text \<open>
  What one call of the scoring service comes to: the client raises (\<open>Raises\<close>), the
  content is not JSON and \<^verbatim>\<open>json.loads\<close> raises (\<open>Malformed\<close>), or the content parses to a
  value (\<open>Json\<close>).
\<close>

datatype groq_reply =
    Raises
  | Malformed
  | Json pyval

definition float_max_int :: int where
  \<comment> \<open>the least integer magnitude that \<^verbatim>\<open>float()\<close> refuses with \<^verbatim>\<open>OverflowError\<close>\<close>
  "float_max_int = 2 ^ 1024 - 2 ^ 970"

fun py_float :: "platform \<Rightarrow> pyval \<Rightarrow> exn + pyfloat" where
  \<comment> \<open>\<^verbatim>\<open>float(x)\<close>; the rounding of a large integer to the nearest double is not modelled\<close>
  "py_float pf (PFloat f) = Inr f"
| "py_float pf (PInt i) =
     (if \<bar>i\<bar> \<ge> float_max_int then Inl OverflowError else Inr (Finite (of_int i)))"
| "py_float pf (PBool b) = Inr (Finite (if b then 1 else 0))"
| "py_float pf (PStr s) =
     (case float_of_str pf s of None \<Rightarrow> Inl ValueError | Some f \<Rightarrow> Inr f)"
| "py_float pf v = Inl (TypeError ''float() argument must be a string or a real number'')"

definition ProcessedLead_fields :: "string list" where
  "ProcessedLead_fields = [''name'', ''phone'', ''model'', ''datetime'', ''intent_score'']"

definition ProcessedLead_init :: "(string \<times> pyval) list \<Rightarrow> pyfloat \<Rightarrow> exn + ProcessedLead" where
  \<comment> \<open>\<^verbatim>\<open>ProcessedLead(**result)\<close> for a dict whose \<^verbatim>\<open>intent_score\<close> entry was set to the
      given float\<close>
  "ProcessedLead_init kw score =
     (case filter (\<lambda>k. k \<notin> set ProcessedLead_fields) (map fst kw) of
        k # ks \<Rightarrow> Inl (unexpected_keyword ''ProcessedLead'' k)
      | [] \<Rightarrow>
         (case (map_of kw ''name'', map_of kw ''phone'', map_of kw ''model'',
                map_of kw ''datetime'') of
            (Some n, Some p, Some m, Some d) \<Rightarrow>
              Inr \<lparr>p_name = n, p_phone = p, p_model = m, p_datetime = d,
                   p_intent_score = score\<rparr>
          | other \<Rightarrow>
              Inl (missing_arguments ''ProcessedLead''
                     (filter (\<lambda>f. map_of kw f = None) [''name'', ''phone'', ''model'', ''datetime'']))))"

definition attempt :: "platform \<Rightarrow> groq_reply \<Rightarrow> exn + ProcessedLead" where
  \<comment> \<open>the body of the \<^verbatim>\<open>try\<close> of one scoring attempt\<close>
  "attempt pf reply =
     (case reply of
        Raises \<Rightarrow> Inl ServiceFault
      | Malformed \<Rightarrow> Inl JSONDecodeError
      | Json (PDict result) \<Rightarrow>
          (case map_of result ''intent_score'' of
             None \<Rightarrow> Inl KeyError
           | Some x \<Rightarrow>
               (case py_float pf x of
                  Inl e \<Rightarrow> Inl e
                | Inr f \<Rightarrow>
                    ProcessedLead_init result (py_max (Finite 0) (py_min (Finite 1) f))))
      | Json other \<Rightarrow> Inl (TypeError ''object is not subscriptable''))"

definition max_retries :: nat where
  "max_retries = 3"

fun attempts :: "platform \<Rightarrow> (nat \<Rightarrow> groq_reply) \<Rightarrow> nat \<Rightarrow> nat \<Rightarrow> ProcessedLead option" where
  \<comment> \<open>the loop \<^verbatim>\<open>for attempt in range(max_retries)\<close>, from attempt \<open>i\<close> with \<open>k\<close> to go\<close>
  "attempts pf replies i 0 = None"
| "attempts pf replies i (Suc k) =
     (case attempt pf (replies i) of
        Inr processed \<Rightarrow> Some processed
      | Inl e \<Rightarrow> attempts pf replies (Suc i) k)"

definition fallback :: "Lead \<Rightarrow> ProcessedLead" where
  "fallback lead =
     \<lparr>p_name = PStr (name lead), p_phone = PStr (phone lead), p_model = PStr (car_model lead),
      p_datetime = PStr (appointment_datetime lead), p_intent_score = Finite (1 / 2)\<rparr>"

definition analyze_lead :: "platform \<Rightarrow> (nat \<Rightarrow> groq_reply) \<Rightarrow> Lead \<Rightarrow> ProcessedLead" where
  "analyze_lead pf replies lead =
     (case attempts pf replies 0 max_retries of
        Some processed \<Rightarrow> processed
      | None \<Rightarrow> fallback lead)"

subsection \<open>GoogleSheetsLogger\<close>

text \<open>
  The worksheet is a grid of cells; row 1 is the header. Every call of the spreadsheet
  client can raise: \<open>outages\<close> lists, for the calls still to come, whether each one does.
  \<^verbatim>\<open>find\<close> compares the query with the text a cell displays (\<open>cell_text\<close>).
  \<^verbatim>\<open>get_all_records\<close> is modelled on a worksheet with distinct header labels and returns
  the cells as they were written: the client's conversion of text that reads as a number
  is not modelled, so \<open>lead_exists\<close> is exact where the Email and Phone cells do not read
  as numbers.
\<close>

record spreadsheet =
  cells :: "pyval list list"
  outages :: "bool list"

definition headers :: "pyval list" where
  "headers =
     [PStr ''Timestamp'', PStr ''Name'', PStr ''Email'', PStr ''Phone'',
      PStr ''Car Model'', PStr ''Appointment'', PStr ''Intent Score'']"

definition api_call :: "spreadsheet \<Rightarrow> bool \<times> spreadsheet" where
  \<comment> \<open>whether the next client call goes through\<close>
  "api_call sh =
     (case outages sh of
        [] \<Rightarrow> (True, sh)
      | down # rest \<Rightarrow> (\<not> down, sh\<lparr>outages := rest\<rparr>))"

definition open_sheet1 :: "spreadsheet \<Rightarrow> (exn + unit) \<times> spreadsheet" where
  \<comment> \<open>\<^verbatim>\<open>self.client.open(self.spreadsheet_name).sheet1\<close>\<close>
  "open_sheet1 sh =
     (case api_call sh of (ok, s) \<Rightarrow> (if ok then Inr () else Inl ServiceFault, s))"

definition records_of :: "pyval list list \<Rightarrow> (pyval \<times> pyval) list list" where
  "records_of grid =
     (case grid of
        [] \<Rightarrow> []
      | hdr # rows \<Rightarrow>
          map (\<lambda>r. zip hdr (r @ replicate (length hdr - length r) (PStr []))) rows)"

definition get_all_records :: "spreadsheet \<Rightarrow> (exn + (pyval \<times> pyval) list list) \<times> spreadsheet" where
  "get_all_records sh =
     (case api_call sh of
        (ok, s) \<Rightarrow> (if ok then Inr (records_of (cells s)) else Inl ServiceFault, s))"

definition append_row :: "spreadsheet \<Rightarrow> pyval list \<Rightarrow> (exn + unit) \<times> spreadsheet" where
  "append_row sh row =
     (case api_call sh of
        (ok, s) \<Rightarrow>
          if ok then (Inr (), s\<lparr>cells := cells s @ [row]\<rparr>) else (Inl ServiceFault, s))"

definition cell_text :: "(pyval \<Rightarrow> string) \<Rightarrow> pyval \<Rightarrow> string" where
  \<comment> \<open>the text a cell displays: text as it was written, any other value (a number, a
      boolean, an empty cell) in the service's own formatting, which is the parameter\<close>
  "cell_text shown v = (case v of PStr s \<Rightarrow> s | other \<Rightarrow> shown other)"

fun find_row :: "(pyval \<Rightarrow> string) \<Rightarrow> string \<Rightarrow> nat \<Rightarrow> nat \<Rightarrow> pyval list list \<Rightarrow> nat option" where
  \<comment> \<open>the number of the first row, counting from \<open>r\<close>, whose cell in column \<open>col\<close> displays
      the query\<close>
  "find_row shown q col r [] = None"
| "find_row shown q col r (row # rows) =
     (if col \<le> length row \<and> cell_text shown (row ! (col - 1)) = q then Some r
      else find_row shown q col (Suc r) rows)"

definition find_cell ::
  "(pyval \<Rightarrow> string) \<Rightarrow> spreadsheet \<Rightarrow> string \<Rightarrow> nat \<Rightarrow> (exn + nat option) \<times> spreadsheet" where
  \<comment> \<open>\<^verbatim>\<open>sheet.find(query, in_column=col)\<close>: the row of the first cell of the column whose
      displayed text is the query; the search runs over every row of the worksheet, row 1
      included\<close>
  "find_cell shown sh query col =
     (case api_call sh of
        (ok, s) \<Rightarrow>
          (if ok then Inr (find_row shown query col 1 (cells s)) else Inl ServiceFault, s))"

definition set_cell :: "nat \<Rightarrow> nat \<Rightarrow> pyval \<Rightarrow> pyval list list \<Rightarrow> pyval list list" where
  \<comment> \<open>writing a cell beyond the used range extends the grid with empty cells\<close>
  "set_cell r c v grid =
     (let g = grid @ replicate (r - length grid) [];
          row = g ! (r - 1);
          row' = (row @ replicate (c - length row) (PStr []))[c - 1 := v]
      in g[r - 1 := row'])"

definition update_cell :: "spreadsheet \<Rightarrow> nat \<Rightarrow> nat \<Rightarrow> pyval \<Rightarrow> (exn + unit) \<times> spreadsheet" where
  "update_cell sh r c v =
     (case api_call sh of
        (ok, s) \<Rightarrow>
          if ok then (Inr (), s\<lparr>cells := set_cell r c v (cells s)\<rparr>) else (Inl ServiceFault, s))"

definition record_get :: "(pyval \<times> pyval) list \<Rightarrow> string \<Rightarrow> pyval" where
  \<comment> \<open>\<^verbatim>\<open>r.get(key)\<close>\<close>
  "record_get r k = (case map_of r (PStr k) of None \<Rightarrow> PNone | Some v \<Rightarrow> v)"

definition lead_exists :: "spreadsheet \<Rightarrow> pyval \<Rightarrow> bool \<times> spreadsheet" where
  "lead_exists sh key =
     (case open_sheet1 sh of
        (Inl e, s1) \<Rightarrow> (False, s1)
      | (Inr sheet, s1) \<Rightarrow>
          (case get_all_records s1 of
             (Inl e, s2) \<Rightarrow> (False, s2)
           | (Inr records, s2) \<Rightarrow>
               (list_ex (\<lambda>r. record_get r ''Email'' = key \<or> record_get r ''Phone'' = key)
                  records, s2)))"

definition opt_str :: "string option \<Rightarrow> pyval" where
  "opt_str v = (case v of None \<Rightarrow> PNone | Some s \<Rightarrow> PStr s)"

definition log_lead :: "spreadsheet \<Rightarrow> Lead \<Rightarrow> ProcessedLead \<Rightarrow> bool \<times> spreadsheet" where
  "log_lead sh lead processed =
     (case lead_exists sh (opt_str (lead_id lead)) of
        (True, s1) \<Rightarrow> (False, s1)
      | (False, s1) \<Rightarrow>
          (case open_sheet1 s1 of
             (Inl e, s2) \<Rightarrow> (False, s2)
           | (Inr sheet, s2) \<Rightarrow>
               (let row = [opt_str (timestamp lead), p_name processed, PStr (email lead),
                           p_phone processed, p_model processed, p_datetime processed,
                           PFloat (p_intent_score processed)]
                in case append_row s2 row of
                     (Inl e, s3) \<Rightarrow> (False, s3)
                   | (Inr done, s3) \<Rightarrow> (True, s3))))"

definition update_lead_status ::
  "(pyval \<Rightarrow> string) \<Rightarrow> spreadsheet \<Rightarrow> string \<Rightarrow> string \<Rightarrow> string \<Rightarrow> bool \<times> spreadsheet" where
  "update_lead_status shown sh key status notes =
     (case open_sheet1 sh of
        (Inl e, s1) \<Rightarrow> (False, s1)
      | (Inr sheet, s1) \<Rightarrow>
          (case find_cell shown s1 key 2 of
             (Inl e, s2) \<Rightarrow> (False, s2)
           | (Inr None, s2) \<Rightarrow> (False, s2)
           | (Inr (Some row), s2) \<Rightarrow>
               (case update_cell s2 row 9 (PStr status) of
                  (Inl e, s3) \<Rightarrow> (False, s3)
                | (Inr done, s3) \<Rightarrow>
                    if notes \<noteq> [] then
                      (case update_cell s3 row 10 (PStr notes) of
                         (Inl e, s4) \<Rightarrow> (False, s4)
                       | (Inr done', s4) \<Rightarrow> (True, s4))
                    else (True, s3))))"

subsection \<open>CalendarManager and NotificationService\<close>

record services =
  groq :: "nat \<Rightarrow> groq_reply"
  calendar_insert_ok :: bool
  discord_post_ok :: bool
  smtp_send_ok :: bool

datatype NotificationChannel = EMAIL | DISCORD

fun channel_value :: "NotificationChannel \<Rightarrow> string" where
  "channel_value EMAIL = ''email''"
| "channel_value DISCORD = ''discord''"

record config =
  discord_webhook :: "string option"
  gmail_user :: "string option"
  gmail_password :: "string option"
  notification_channels :: "NotificationChannel list"
  timezone :: string

definition create_event :: "platform \<Rightarrow> services \<Rightarrow> Lead \<Rightarrow> ProcessedLead \<Rightarrow> string \<Rightarrow> string option" where
  "create_event pf svc lead processed tz =
     (case p_datetime processed of
        PStr s \<Rightarrow>
          (case fromisoformat pf (replace_char CHR ''Z'' ''+00:00'' s) of
             None \<Rightarrow> None
           | Some start_time \<Rightarrow>
               (case plus_hours start_time 1 of
                  Inl e \<Rightarrow> None
                | Inr end_time \<Rightarrow>
                    if calendar_insert_ok svc then Some ''https://meet.google.com/new''
                    else None))
      | other \<Rightarrow> None)"

definition send_discord :: "services \<Rightarrow> Lead \<Rightarrow> ProcessedLead \<Rightarrow> string option \<Rightarrow> bool" where
  "send_discord svc lead processed meet = discord_post_ok svc"

definition send_gmail :: "services \<Rightarrow> Lead \<Rightarrow> ProcessedLead \<Rightarrow> string option \<Rightarrow> bool" where
  "send_gmail svc lead processed meet = smtp_send_ok svc"

definition send_notification ::
  "config \<Rightarrow> services \<Rightarrow> Lead \<Rightarrow> ProcessedLead \<Rightarrow> string option \<Rightarrow> NotificationChannel \<Rightarrow> bool" where
  "send_notification cfg svc lead processed meet channel =
     (if channel = DISCORD \<and> truthy (discord_webhook cfg) then send_discord svc lead processed meet
      else if channel = EMAIL \<and> truthy (gmail_user cfg) then send_gmail svc lead processed meet
      else False)"

subsection \<open>LeadWorkflow\<close>

record result =
  success :: bool
  res_lead_id :: "string option"
  errors :: "string list"
  warnings :: "string list"
  meet_link :: "string option"
  res_intent_score :: "pyfloat option"

datatype call =
    LeadExists pyval
  | AnalyzeLead
  | LogLead
  | CreateEvent
  | SendNotification NotificationChannel

definition initial_result :: result where
  "initial_result =
     \<lparr>success = False, res_lead_id = None, errors = [], warnings = [], meet_link = None,
      res_intent_score = None\<rparr>"

definition notify_step ::
  "config \<Rightarrow> services \<Rightarrow> Lead \<Rightarrow> ProcessedLead \<Rightarrow> string option \<Rightarrow> result \<Rightarrow> NotificationChannel \<Rightarrow> result" where
  \<comment> \<open>one pass of the loop over \<^verbatim>\<open>self.notification_channels\<close>\<close>
  "notify_step cfg svc lead processed meet res channel =
     (if \<not> send_notification cfg svc lead processed meet channel
      then res\<lparr>warnings := warnings res @ [''Failed to send '' @ channel_value channel @ '' notification'']\<rparr>
      else res)"

definition workflow_body ::
  "config \<Rightarrow> platform \<Rightarrow> services \<Rightarrow> spreadsheet \<Rightarrow> (string \<times> string) list \<Rightarrow> result
     \<Rightarrow> exn option \<times> result \<times> spreadsheet \<times> call list" where
  \<comment> \<open>the \<^verbatim>\<open>try\<close> block of \<^verbatim>\<open>process_lead\<close>: the exception that left it (if any), the result
      dict as it stands then, the worksheet, and the collaborator calls made, in order\<close>
  "workflow_body cfg pf svc sh lead_data res =
     (case validate_lead_data pf lead_data of
        (is_valid, errs) \<Rightarrow>
          if \<not> is_valid then (None, res\<lparr>errors := errors res @ errs\<rparr>, sh, [])
          else
            (case Lead_init pf lead_data of
               Inl e \<Rightarrow> (Some e, res, sh, [])
             | Inr lead \<Rightarrow>
                 (let res1 = res\<lparr>res_lead_id := lead_id lead\<rparr>;
                      key = opt_str (lead_id lead)
                  in case lead_exists sh key of
                       (True, sh1) \<Rightarrow>
                         (None, res1\<lparr>errors := errors res1 @ [''Duplicate lead - already processed'']\<rparr>,
                          sh1, [LeadExists key])
                     | (False, sh1) \<Rightarrow>
                         (let processed = analyze_lead pf (groq svc) lead;
                              res2 = res1\<lparr>res_intent_score := Some (p_intent_score processed)\<rparr>;
                              res3 = (if p_intent_score processed = Finite (1 / 2)
                                      then res2\<lparr>warnings := warnings res2 @
                                        [''AI analysis failed - using default score - manual review recommended'']\<rparr>
                                      else res2)
                          in case log_lead sh1 lead processed of
                               (sheets_success, sh2) \<Rightarrow>
                                 (let res4 = (if \<not> sheets_success
                                              then res3\<lparr>errors := errors res3 @ [''Failed to log to Google Sheets'']\<rparr>
                                              else res3);
                                      meet = create_event pf svc lead processed (timezone cfg);
                                      res5 = res4\<lparr>meet_link := meet\<rparr>;
                                      res6 = (if \<not> truthy meet
                                              then res5\<lparr>warnings := warnings res5 @ [''Failed to create calendar event'']\<rparr>
                                              else res5);
                                      res7 = foldl (notify_step cfg svc lead processed meet) res6
                                               (notification_channels cfg)
                                  in (None, res7\<lparr>success := True\<rparr>, sh2,
                                      [LeadExists key, AnalyzeLead, LogLead, CreateEvent]
                                      @ map SendNotification (notification_channels cfg)))))))"

definition process_lead ::
  "config \<Rightarrow> platform \<Rightarrow> services \<Rightarrow> spreadsheet \<Rightarrow> (string \<times> string) list
     \<Rightarrow> result \<times> spreadsheet \<times> call list" where
  "process_lead cfg pf svc sh lead_data =
     (case workflow_body cfg pf svc sh lead_data initial_result of
        (None, res, sh', calls) \<Rightarrow> (res, sh', calls)
      | (Some e, res, sh', calls) \<Rightarrow>
          (res\<lparr>errors := errors res @ [''Unexpected error: '' @ exn_str e]\<rparr>, sh', calls))"

subsection \<open>Predicates used in the statements\<close>

definition hexchar :: "char \<Rightarrow> bool" where
  "hexchar c = (c \<in> set ''0123456789abcdef'')"

definition in_unit :: "pyfloat \<Rightarrow> bool" where
  \<comment> \<open>a finite float in the interval [0.0, 1.0]\<close>
  "in_unit f = (case f of Finite r \<Rightarrow> 0 \<le> r \<and> r \<le> 1 | other \<Rightarrow> False)"

fun log_all :: "spreadsheet \<Rightarrow> (Lead \<times> ProcessedLead) list \<Rightarrow> spreadsheet" where
  \<comment> \<open>the worksheet after a sequence of \<^verbatim>\<open>log_lead\<close> calls\<close>
  "log_all sh [] = sh"
| "log_all sh ((lead, processed) # rest) = log_all (snd (log_lead sh lead processed)) rest"



definition ascii_text :: "string \<Rightarrow> bool" where
  "ascii_text s = list_all (\<lambda>c. (of_char c :: nat) < 128) s"

definition lowercased :: "string \<Rightarrow> string" where
  \<comment> \<open>lower-casing stated by character code: each of A to Z (65 to 90) becomes the letter
      32 codes above it, every other character stays\<close>
  "lowercased s =
     map (\<lambda>c. if 65 \<le> (of_char c :: nat) \<and> (of_char c :: nat) \<le> 90
              then char_of ((of_char c :: nat) + 32) else c) s"

subsection \<open>Example inputs\<close>

text \<open>
  A clock reading 2029-12-01T09:00:00, a parser that knows the two appointment times used
  below, a scorer that answers with a score above the range, and the lead of the
  end-to-end scenario.
\<close>

definition example_platform :: platform where
  "example_platform =
     \<lparr>fromisoformat =
        (\<lambda>s. if s = ''2030-01-01T10:00:00'' then Some \<lparr>wall = 64029088800000000, tzinfo = None\<rparr>
             else if s = ''2020-01-01T00:00:00+00:00''
               then Some \<lparr>wall = 63713433600000000, tzinfo = Some 0\<rparr>
             else None),
      isoformat = (\<lambda>d. if wall d = 64026406800000000 then ''2029-12-01T09:00:00'' else []),
      float_of_str = (\<lambda>s. None),
      utc_now = 64026406800000000,
      local_offset = 0\<rparr>"

definition example_config :: config where
  "example_config =
     \<lparr>discord_webhook = Some ''https://discord.example/hook'',
      gmail_user = Some ''sales@example.com'',
      gmail_password = Some ''app-password'',
      notification_channels = [DISCORD, EMAIL],
      timezone = ''America/New_York''\<rparr>"

definition example_reply :: groq_reply where
  "example_reply =
     Json (PDict [(''name'', PStr ''Jane Doe''), (''phone'', PStr ''+1-212-555-0100''),
                  (''model'', PStr ''Luxury Sedan X''), (''datetime'', PStr ''2030-01-01T10:00:00''),
                  (''intent_score'', PFloat (Finite (6 / 5)))])"

definition example_services :: services where
  "example_services =
     \<lparr>groq = (\<lambda>i. example_reply), calendar_insert_ok = True, discord_post_ok = True,
      smtp_send_ok = True\<rparr>"

definition jane :: "(string \<times> string) list" where
  "jane =
     [(''name'', ''Jane Doe''), (''email'', ''jane@corp.com''), (''phone'', ''+1-212-555-0100''),
      (''car_model'', ''Luxury Sedan X''), (''appointment_datetime'', ''2030-01-01T10:00:00'')]"

definition jane_lead :: Lead where
  "jane_lead =
     \<lparr>name = ''Jane Doe'', email = ''jane@corp.com'', phone = ''+1-212-555-0100'',
      car_model = ''Luxury Sedan X'', appointment_datetime = ''2030-01-01T10:00:00'',
      intent_score = None, timestamp = Some ''2029-12-01T09:00:00'',
      lead_id = Some ''c0ef8a4bd04e''\<rparr>"

definition jane_processed :: ProcessedLead where
  "jane_processed =
     \<lparr>p_name = PStr ''Jane Doe'', p_phone = PStr ''+1-212-555-0100'',
      p_model = PStr ''Luxury Sedan X'', p_datetime = PStr ''2030-01-01T10:00:00'',
      p_intent_score = Finite 1\<rparr>"

definition jane_row :: "pyval list" where
  "jane_row =
     [PStr ''2029-12-01T09:00:00'', PStr ''Jane Doe'', PStr ''jane@corp.com'',
      PStr ''+1-212-555-0100'', PStr ''Luxury Sedan X'', PStr ''2030-01-01T10:00:00'',
      PFloat (Finite 1)]"

definition jane_result :: result where
  "jane_result =
     \<lparr>success = True, res_lead_id = Some ''c0ef8a4bd04e'', errors = [], warnings = [],
      meet_link = Some ''https://meet.google.com/new'', res_intent_score = Some (Finite 1)\<rparr>"

definition empty_sheet :: spreadsheet where
  "empty_sheet = \<lparr>cells = [headers], outages = []\<rparr>"

definition flaky_sheet :: spreadsheet where
  "flaky_sheet = \<lparr>cells = [headers], outages = [False, False, False, False, False, True]\<rparr>"

definition silent_services :: services where
  "silent_services =
     \<lparr>groq = (\<lambda>i. Malformed), calendar_insert_ok = True, discord_post_ok = True,
      smtp_send_ok = True\<rparr>"

definition tagged :: "(string \<times> string) list" where
  "tagged = jane @ [(''lead_id'', ''VIP-0001''), (''utm_source'', ''newsletter'')]"

definition vip :: "(string \<times> string) list" where
  "vip = jane @ [(''lead_id'', ''VIP-0001''), (''timestamp'', ''2029-11-30T08:00:00'')]"

definition example_display :: "pyval \<Rightarrow> string" where
  \<comment> \<open>how the worksheet shows the values that are not text\<close>
  "example_display v =
     (case v of
        PInt i \<Rightarrow> (if i = 42 then ''42'' else [])
      | PFloat f \<Rightarrow> (if f = Finite 1 then ''1'' else [])
      | PBool b \<Rightarrow> (if b then ''TRUE'' else ''FALSE'')
      | other \<Rightarrow> [])"

definition numbered_processed :: ProcessedLead where
  \<comment> \<open>a scorer's answer whose name is the number 42\<close>
  "numbered_processed = jane_processed\<lparr>p_name := PInt 42\<rparr>"

definition upper_lead :: Lead where
  "upper_lead =
     \<lparr>name = ''Jane Doe'', email = ''Jane@Corp.COM'', phone = ''+1-212-555-0100'',
      car_model = ''Luxury Sedan X'', appointment_datetime = ''2030-01-01T10:00:00'',
      intent_score = None, timestamp = None, lead_id = None\<rparr>"

definition upper_lead_again :: Lead where
  "upper_lead_again =
     \<lparr>name = ''J. Doe'', email = ''Jane@Corp.COM'', phone = ''+1-212-555-0100'',
      car_model = ''Compact Y'', appointment_datetime = ''2031-06-15T16:30:00'',
      intent_score = None, timestamp = Some ''2029-11-30T08:00:00'', lead_id = Some []\<rparr>"

definition resubmitted :: "(string \<times> string) list" where
  "resubmitted = jane @ [(''lead_id'', ''jane@corp.com'')]"

section \<open>Properties\<close>

subsection \<open>Auxiliary facts\<close>

lemma truthy_simps:
  "truthy None = False" "truthy (Some s) = (s \<noteq> [])"
  by (simp_all add: truthy_def)

lemma hex_digit_hexchar: "hexchar (hex_digit n)"
proof -
  have "n mod 16 < length ''0123456789abcdef''" by simp
  then have "''0123456789abcdef'' ! (n mod 16) \<in> set ''0123456789abcdef''"
    by (rule nth_mem)
  then show ?thesis by (simp only: hexchar_def hex_digit_def)
qed

lemma length_bytes_le: "length (bytes_le k n) = k"
  by (simp add: bytes_le_def)

lemma length_md5_digest: "length (md5_digest msg) = 16"
  by (simp add: md5_digest_def length_bytes_le split: prod.splits)

lemma length_concat_hex: "length (concat (map hex_byte bs)) = 2 * length bs"
  by (induction bs) (simp_all add: hex_byte_def)

lemma hexchar_concat_hex: "list_all hexchar (concat (map hex_byte bs))"
  by (induction bs) (simp_all add: hex_byte_def hex_digit_hexchar)

lemma length_md5_hexdigest: "length (md5_hexdigest s) = 32"
  by (simp add: md5_hexdigest_def length_concat_hex length_md5_digest)

lemma hexchar_md5_hexdigest: "list_all hexchar (md5_hexdigest s)"
  by (simp add: md5_hexdigest_def hexchar_concat_hex)

lemma list_all_take: "list_all P xs \<Longrightarrow> list_all P (take n xs)"
  by (auto simp: list_all_iff dest: in_set_takeD)

lemma clamp_in_unit: "in_unit (py_max (Finite 0) (py_min (Finite 1) f))"
  by (cases f) (auto simp: in_unit_def py_max_def py_min_def)

lemma ProcessedLead_init_score:
  "ProcessedLead_init kw score = Inr p \<Longrightarrow> p_intent_score p = score"
  by (auto simp: ProcessedLead_init_def split: list.splits option.splits)

lemma attempt_in_unit: "attempt pf reply = Inr p \<Longrightarrow> in_unit (p_intent_score p)"
  by (auto simp: attempt_def clamp_in_unit split: groq_reply.splits pyval.splits option.splits sum.splits
           dest!: ProcessedLead_init_score)

lemma attempts_in_unit: "attempts pf replies i k = Some p \<Longrightarrow> in_unit (p_intent_score p)"
  by (induction k arbitrary: i) (auto split: sum.splits dest: attempt_in_unit)

lemma foldl_notify_step:
  "foldl (notify_step cfg svc lead processed meet) res chans =
     res\<lparr>warnings := warnings res @
        map (\<lambda>ch. ''Failed to send '' @ channel_value ch @ '' notification'')
          (filter (\<lambda>ch. \<not> send_notification cfg svc lead processed meet ch) chans)\<rparr>"
  by (induction chans arbitrary: res) (simp_all add: notify_step_def)

lemma process_lead_scored:
  assumes "fst (validate_lead_data pf data)"
    and "Lead_init pf data = Inr lead"
    and "lead_exists sh (opt_str (lead_id lead)) = (False, sh1)"
    and "log_lead sh1 lead (analyze_lead pf (groq svc) lead) = (ok, sh2)"
  shows "process_lead cfg pf svc sh data =
     (\<lparr>success = True,
       res_lead_id = lead_id lead,
       errors = (if ok then [] else [''Failed to log to Google Sheets'']),
       warnings =
         (if p_intent_score (analyze_lead pf (groq svc) lead) = Finite (1 / 2)
          then [''AI analysis failed - using default score - manual review recommended'']
          else [])
         @ (if truthy (create_event pf svc lead (analyze_lead pf (groq svc) lead) (timezone cfg))
            then [] else [''Failed to create calendar event''])
         @ map (\<lambda>ch. ''Failed to send '' @ channel_value ch @ '' notification'')
             (filter (\<lambda>ch. \<not> send_notification cfg svc lead (analyze_lead pf (groq svc) lead)
                         (create_event pf svc lead (analyze_lead pf (groq svc) lead) (timezone cfg)) ch)
                (notification_channels cfg)),
       meet_link = create_event pf svc lead (analyze_lead pf (groq svc) lead) (timezone cfg),
       res_intent_score = Some (p_intent_score (analyze_lead pf (groq svc) lead))\<rparr>,
      sh2,
      [LeadExists (opt_str (lead_id lead)), AnalyzeLead, LogLead, CreateEvent]
      @ map SendNotification (notification_channels cfg))"
proof -
  obtain errs where v: "validate_lead_data pf data = (True, errs)"
    using assms(1) by (cases "validate_lead_data pf data") simp
  show ?thesis
    by (simp add: process_lead_def workflow_body_def v assms(2,3,4) Let_def initial_result_def
          foldl_notify_step)
qed

lemma create_event_link:
  "create_event pf svc lead processed tz \<noteq> None \<Longrightarrow>
   create_event pf svc lead processed tz = Some ''https://meet.google.com/new''"
  by (auto simp: create_event_def split: pyval.splits option.splits sum.splits if_splits)

lemma workflow_body_raises:
  assumes "workflow_body cfg pf svc sh data res = (Some e, res', sh', calls)"
  shows "res' = res \<and> sh' = sh \<and> calls = [] \<and> Lead_init pf data = Inl e
       \<and> fst (validate_lead_data pf data)"
  using assms
  by (auto simp: workflow_body_def Let_def split: prod.splits if_splits sum.splits bool.splits)

lemma attempts_all_fail:
  "(\<And>j. i \<le> j \<Longrightarrow> j < i + k \<Longrightarrow> isl (attempt pf (replies j))) \<Longrightarrow> attempts pf replies i k = None"
proof (induction k arbitrary: i)
  case 0
  then show ?case by simp
next
  case (Suc k)
  have "isl (attempt pf (replies i))" using Suc.prems [of i] by simp
  moreover have "attempts pf replies (Suc i) k = None"
    using Suc.prems by (intro Suc.IH) simp_all
  ultimately show ?case by (auto split: sum.splits)
qed

lemma valid_present:
  assumes "fst (validate_lead_data pf data)" and "f \<in> set required_fields"
  shows "\<exists>v. map_of data f = Some v \<and> v \<noteq> []"
proof -
  have "filter (missing data) required_fields = []"
    using assms(1) by (auto simp: validate_lead_data_def Let_def split: if_splits)
  then have "\<not> missing data f"
    using assms(2) by (simp add: filter_empty_conv)
  then show ?thesis
    by (auto simp: missing_def split: option.splits)
qed

lemma Lead_init_valid:
  assumes "fst (validate_lead_data pf data)"
    and "list_all (\<lambda>k. k \<in> set Lead_fields) (map fst data)"
  shows "\<exists>n e p c a. Lead_init pf data = Inr (post_init pf
                \<lparr>name = n, email = e, phone = p, car_model = c, appointment_datetime = a,
                 intent_score = map_of data ''intent_score'',
                 timestamp = map_of data ''timestamp'',
                 lead_id = map_of data ''lead_id''\<rparr>)"
proof -
  have "filter (\<lambda>k. k \<notin> set Lead_fields) (map fst data) = []"
    using assms(2) by (simp add: filter_empty_conv list_all_iff)
  moreover obtain n where "map_of data ''name'' = Some n"
    using valid_present [OF assms(1), of "''name''"] by (auto simp: required_fields_def)
  moreover obtain e where "map_of data ''email'' = Some e"
    using valid_present [OF assms(1), of "''email''"] by (auto simp: required_fields_def)
  moreover obtain p where "map_of data ''phone'' = Some p"
    using valid_present [OF assms(1), of "''phone''"] by (auto simp: required_fields_def)
  moreover obtain c where "map_of data ''car_model'' = Some c"
    using valid_present [OF assms(1), of "''car_model''"] by (auto simp: required_fields_def)
  moreover obtain a where "map_of data ''appointment_datetime'' = Some a"
    using valid_present [OF assms(1), of "''appointment_datetime''"] by (auto simp: required_fields_def)
  ultimately show ?thesis
    by (simp add: Lead_init_def) blast
qed

lemma api_call_cells: "cells (snd (api_call sh)) = cells sh"
  by (simp add: api_call_def split: list.splits)

lemma lead_exists_cells: "cells (snd (lead_exists sh key)) = cells sh"
  by (simp add: lead_exists_def open_sheet1_def get_all_records_def api_call_def
        split: list.splits prod.splits sum.splits)

lemma log_lead_cells:
  "\<exists>rows. cells (snd (log_lead sh lead processed)) = cells sh @ rows"
proof -
  have "cells (snd (lead_exists sh (opt_str (lead_id lead)))) = cells sh"
    by (rule lead_exists_cells)
  then show ?thesis
    by (auto simp: log_lead_def open_sheet1_def append_row_def api_call_def Let_def
          split: list.splits prod.splits sum.splits bool.splits if_splits)
qed

lemma log_all_cells: "\<exists>rows. cells (log_all sh entries) = cells sh @ rows"
proof (induction entries arbitrary: sh)
  case Nil
  then show ?case by simp
next
  case (Cons entry entries)
  obtain lead processed where e: "entry = (lead, processed)" by (cases entry)
  obtain r1 where "cells (snd (log_lead sh lead processed)) = cells sh @ r1"
    using log_lead_cells by blast
  moreover obtain r2 where
    "cells (log_all (snd (log_lead sh lead processed)) entries)
       = cells (snd (log_lead sh lead processed)) @ r2"
    using Cons.IH by blast
  ultimately show ?case using e by simp
qed





lemma eq_char_of: "(c = char_of (n::nat)) = (take_bit 8 n = of_char c)"
  using char_of_eq_iff [of n c] by auto

lemma upper_letters: "map char_of [65..<91::nat] = ''ABCDEFGHIJKLMNOPQRSTUVWXYZ''"
  by (simp add: upt_rec char_of_eq_iff)

lemma upper_codes:
  "(65 \<le> (of_char c :: nat) \<and> (of_char c :: nat) \<le> 90) = (c \<in> set ''ABCDEFGHIJKLMNOPQRSTUVWXYZ'')"
proof
  assume "65 \<le> (of_char c :: nat) \<and> (of_char c :: nat) \<le> 90"
  then have "(of_char c :: nat) \<in> set [65..<91]"
    unfolding set_upt atLeastLessThan_iff by arith
  then have "char_of (of_char c :: nat) \<in> set (map char_of [65..<91::nat])"
    unfolding set_map by (rule imageI)
  then show "c \<in> set ''ABCDEFGHIJKLMNOPQRSTUVWXYZ''"
    unfolding upper_letters char_of_char .
next
  assume "c \<in> set ''ABCDEFGHIJKLMNOPQRSTUVWXYZ''"
  then show "65 \<le> (of_char c :: nat) \<and> (of_char c :: nat) \<le> 90"
    by auto
qed

lemma lower_char_code:
  "lower_char c =
     (if 65 \<le> (of_char c :: nat) \<and> (of_char c :: nat) \<le> 90
      then char_of ((of_char c :: nat) + 32) else c)"
proof (cases "c \<in> set ''ABCDEFGHIJKLMNOPQRSTUVWXYZ''")
  case True
  then show ?thesis
    unfolding upper_codes by (auto simp: lower_char_def eq_char_of)
next
  case False
  then have "map_of (zip ''ABCDEFGHIJKLMNOPQRSTUVWXYZ'' ''abcdefghijklmnopqrstuvwxyz'') c = None"
    by (simp add: map_of_eq_None_iff)
  then show ?thesis
    using False unfolding upper_codes by (simp add: lower_char_def)
qed

lemma lower_lowercased: "lower s = lowercased s"
  by (simp add: lower_def lowercased_def lower_char_code)

lemma spans_split:
  "r \<in> set (spans p m n s) \<Longrightarrow> \<exists>pre. s = pre @ r \<and> list_all p pre \<and> m \<le> length pre"
proof (induction s arbitrary: m n)
  case Nil
  then show ?case by (auto split: if_splits)
next
  case (Cons c cs)
  show ?case
  proof (cases "r = c # cs \<and> m = 0")
    case True
    then show ?thesis by auto
  next
    case False
    then have "p c" and "r \<in> set (spans p (m - 1) (map_option (\<lambda>k. k - 1) n) cs)"
      using Cons.prems by (auto split: if_splits)
    then obtain pre where "cs = pre @ r" "list_all p pre" "m - 1 \<le> length pre"
      using Cons.IH by blast
    then have "c # cs = (c # pre) @ r \<and> list_all p (c # pre) \<and> m \<le> length (c # pre)"
      using \<open>p c\<close> by auto
    then show ?thesis by blast
  qed
qed

lemma re_match_step:
  assumes "re_match (i # items) s" and "bounds i = (p, m, n)"
  shows "\<exists>pre r. s = pre @ r \<and> list_all p pre \<and> m \<le> length pre \<and> re_match items r"
proof -
  obtain r where "r \<in> set (spans p m n s)" and "re_match items r"
    using assms by (auto simp: list_ex_iff)
  then show ?thesis
    using spans_split by blast
qed

subsection \<open>The MD5 model on two inputs\<close>

text \<open>
  The digest of \<^verbatim>\<open>abc\<close> is the test vector of RFC 1321; the second input is the
  lower-cased email and phone of the example lead.
\<close>

lemma replicate_numeral: "replicate (numeral k) x = x # replicate (pred_numeral k) x"
  by (simp add: numeral_eq_Suc)

lemma md5_abc_words:
  "words_le (take 64 (md5_pad (encode ''abc''))) =
     [0x80636261, 0, 0, 0, 0, 0, 0, 0, 0, 0, 0, 0, 0, 0, 0x18, 0]"
  by (simp add: encode_def md5_pad_def bytes_le_def replicate_numeral upt_rec)

lemma md5_abc_rest: "drop 64 (md5_pad (encode ''abc'')) = []"
  by (simp add: encode_def md5_pad_def bytes_le_def)

lemma md5_abc_block:
  "md5_block (0x67452301, 0xefcdab89, 0x98badcfe, 0x10325476)
     [0x80636261, 0, 0, 0, 0, 0, 0, 0, 0, 0, 0, 0, 0, 0, 0x18, 0]
   = (0x98500190, 0xb04fd23c, 0x7d3f96d6, 0x727fe128)"
  by code_simp

lemma md5_abc: "md5_hexdigest ''abc'' = ''900150983cd24fb0d6963f7d28e17f72''"
proof -
  have ne: "md5_pad (encode ''abc'') \<noteq> []"
    by (simp add: md5_pad_def)
  have "md5_blocks (0x67452301, 0xefcdab89, 0x98badcfe, 0x10325476) (md5_pad (encode ''abc''))
        = (0x98500190, 0xb04fd23c, 0x7d3f96d6, 0x727fe128)"
    by (simp add: md5_blocks.simps [of _ "md5_pad (encode ''abc'')"]
          md5_blocks.simps [of _ "[]"] ne md5_abc_words md5_abc_rest md5_abc_block)
  then show ?thesis
    by (simp add: md5_hexdigest_def md5_digest_def hex_byte_def hex_digit_def bytes_le_def upt_rec)
qed

lemma jane_words:
  "words_le (take 64 (md5_pad (encode ''jane@corp.com+1-212-555-0100''))) =
     [0x656e616a, 0x726f6340, 0x6f632e70, 0x2d312b6d, 0x2d323132, 0x2d353535, 0x30303130,
      0x00000080, 0, 0, 0, 0, 0, 0, 0x000000e0, 0]"
  by (simp add: encode_def md5_pad_def bytes_le_def replicate_numeral upt_rec)

lemma jane_rest: "drop 64 (md5_pad (encode ''jane@corp.com+1-212-555-0100'')) = []"
  by (simp add: encode_def md5_pad_def bytes_le_def)

lemma jane_block:
  "md5_block (0x67452301, 0xefcdab89, 0x98badcfe, 0x10325476)
     [0x656e616a, 0x726f6340, 0x6f632e70, 0x2d312b6d, 0x2d323132, 0x2d353535, 0x30303130,
      0x00000080, 0, 0, 0, 0, 0, 0, 0x000000e0, 0]
   = (0x4b8aefc0, 0x42454ed0, 0x7465225b, 0xcd91a11a)"
  by code_simp

lemma jane_md5:
  "md5_hexdigest ''jane@corp.com+1-212-555-0100'' = ''c0ef8a4bd04e45425b2265741aa191cd''"
proof -
  have ne: "md5_pad (encode ''jane@corp.com+1-212-555-0100'') \<noteq> []"
    by (simp add: md5_pad_def)
  have "md5_blocks (0x67452301, 0xefcdab89, 0x98badcfe, 0x10325476)
          (md5_pad (encode ''jane@corp.com+1-212-555-0100''))
        = (0x4b8aefc0, 0x42454ed0, 0x7465225b, 0xcd91a11a)"
    by (simp add: md5_blocks.simps [of _ "md5_pad (encode ''jane@corp.com+1-212-555-0100'')"]
          md5_blocks.simps [of _ "[]"] ne jane_words jane_rest jane_block)
  then show ?thesis
    by (simp add: md5_hexdigest_def md5_digest_def hex_byte_def hex_digit_def bytes_le_def upt_rec)
qed

subsection \<open>The example lead, step by step\<close>

lemma valid_append:
  "validate_lead_data example_platform (jane @ extra) = (True, [])"
  by (simp add: validate_lead_data_def jane_def required_fields_def missing_def dict_get_def
        validate_email_def email_pattern_def alpha_def digit_def in_range_def
        validate_phone_def phone_pattern_def replace_char_def
        validate_datetime_def example_platform_def Let_def)

lemma jane_valid: "validate_lead_data example_platform jane = (True, [])"
  by (simp add: validate_lead_data_def jane_def required_fields_def missing_def dict_get_def
        validate_email_def email_pattern_def alpha_def digit_def in_range_def
        validate_phone_def phone_pattern_def replace_char_def
        validate_datetime_def example_platform_def Let_def)

lemma jane_init: "Lead_init example_platform jane = Inr jane_lead"
  by (simp add: Lead_init_def jane_def Lead_fields_def post_init_def truthy_def Let_def
        example_platform_def datetime_now_def lower_def lower_char_def jane_md5 jane_lead_def)

lemma jane_scored: "analyze_lead example_platform (groq example_services) jane_lead = jane_processed"
  by (simp add: analyze_lead_def max_retries_def numeral_3_eq_3 attempt_def example_services_def
        example_reply_def py_max_def py_min_def ProcessedLead_init_def ProcessedLead_fields_def
        jane_processed_def)

lemma jane_event:
  "create_event example_platform example_services jane_lead jane_processed tz
     = Some ''https://meet.google.com/new''"
  by (simp add: create_event_def jane_processed_def example_platform_def replace_char_def
        plus_hours_def datetime_max_def example_services_def)

lemma jane_notified:
  "send_notification example_config example_services jane_lead jane_processed meet ch"
  by (cases ch)
     (simp_all add: send_notification_def example_config_def truthy_def send_discord_def
        send_gmail_def example_services_def)

lemma jane_new: "lead_exists empty_sheet (PStr ''c0ef8a4bd04e'') = (False, empty_sheet)"
  by (simp add: lead_exists_def open_sheet1_def get_all_records_def api_call_def empty_sheet_def
        records_of_def)

lemma jane_logged:
  "log_lead empty_sheet jane_lead jane_processed = (True, \<lparr>cells = [headers, jane_row], outages = []\<rparr>)"
  by (simp add: log_lead_def lead_exists_def open_sheet1_def get_all_records_def api_call_def
        empty_sheet_def records_of_def append_row_def opt_str_def jane_lead_def jane_processed_def
        jane_row_def)

lemma jane_again:
  "lead_exists \<lparr>cells = [headers, jane_row], outages = []\<rparr> (PStr ''c0ef8a4bd04e'')
     = (False, \<lparr>cells = [headers, jane_row], outages = []\<rparr>)"
  by (simp add: lead_exists_def open_sheet1_def get_all_records_def api_call_def
        records_of_def headers_def jane_row_def record_get_def)

lemma jane_key: "opt_str (lead_id jane_lead) = PStr ''c0ef8a4bd04e''"
  by (simp add: opt_str_def jane_lead_def)

lemma jane_logged_again:
  "log_lead \<lparr>cells = [headers, jane_row], outages = []\<rparr> jane_lead jane_processed
     = (True, \<lparr>cells = [headers, jane_row, jane_row], outages = []\<rparr>)"
proof -
  have "log_lead \<lparr>cells = [headers, jane_row], outages = []\<rparr> jane_lead jane_processed
     = (True, \<lparr>cells = [headers, jane_row] @ [jane_row], outages = []\<rparr>)"
    unfolding log_lead_def jane_key jane_again
    by (simp add: open_sheet1_def api_call_def append_row_def opt_str_def
          jane_lead_def jane_processed_def jane_row_def)
  then show ?thesis by simp
qed

lemma jane_all_notified:
  "filter (\<lambda>ch. \<not> send_notification example_config example_services jane_lead jane_processed meet ch)
     chans = []"
  by (simp add: jane_notified)

text \<open>
  A row whose Name is the number 42 is found by the key \<^verbatim>\<open>42\<close>, the text the worksheet
  displays for it.
\<close>

lemma numbered_name_is_found:
  "log_all empty_sheet [(jane_lead, numbered_processed)]
     = \<lparr>cells = [headers, jane_row[1 := PInt 42]], outages = []\<rparr>
   \<and> fst (update_lead_status example_display
              \<lparr>cells = [headers, jane_row[1 := PInt 42]], outages = []\<rparr> ''42'' ''CONTACTED'' [])"
proof -
  have "log_lead empty_sheet jane_lead numbered_processed
          = (True, \<lparr>cells = [headers, jane_row[1 := PInt 42]], outages = []\<rparr>)"
    by (simp add: log_lead_def lead_exists_def open_sheet1_def get_all_records_def api_call_def
          empty_sheet_def records_of_def append_row_def opt_str_def jane_lead_def
          jane_processed_def numbered_processed_def jane_row_def)
  moreover have "fst (update_lead_status example_display
        \<lparr>cells = [headers, jane_row[1 := PInt 42]], outages = []\<rparr> ''42'' ''CONTACTED'' [])"
    by (simp add: update_lead_status_def open_sheet1_def find_cell_def api_call_def
          update_cell_def headers_def jane_row_def cell_text_def example_display_def)
  ultimately show ?thesis by simp
qed

section \<open>The claims\<close>

text \<open>
  C1 (the code departs from it). Two submissions with the same email and phone, and no
  \<^verbatim>\<open>lead_id\<close> of their own, are processed in sequence on an empty worksheet with every
  service working. The first succeeds and its row is appended. The second is not rejected
  as a duplicate: \<^verbatim>\<open>lead_exists\<close> compares the derived id \<^verbatim>\<open>c0ef8a4bd04e\<close> with the Email
  and Phone cells, which hold the address and the number, so it answers false; the
  second call succeeds as well and appends the same row again.
\<close>

theorem duplicate_submission_accepted:
  "process_lead example_config example_platform example_services empty_sheet jane
     = (jane_result, \<lparr>cells = [headers, jane_row], outages = []\<rparr>,
        [LeadExists (PStr ''c0ef8a4bd04e''), AnalyzeLead, LogLead, CreateEvent,
         SendNotification DISCORD, SendNotification EMAIL])
   \<and> process_lead example_config example_platform example_services
        \<lparr>cells = [headers, jane_row], outages = []\<rparr> jane
     = (jane_result, \<lparr>cells = [headers, jane_row, jane_row], outages = []\<rparr>,
        [LeadExists (PStr ''c0ef8a4bd04e''), AnalyzeLead, LogLead, CreateEvent,
         SendNotification DISCORD, SendNotification EMAIL])"
proof -
  have v: "fst (validate_lead_data example_platform jane)"
    by (simp add: jane_valid)
  have lid: "lead_id jane_lead = Some ''c0ef8a4bd04e''"
    by (simp add: jane_lead_def)
  have ch: "notification_channels example_config = [DISCORD, EMAIL]"
    by (simp add: example_config_def)
  have sc: "p_intent_score jane_processed = Finite 1"
    by (simp add: jane_processed_def)
  have nd1: "lead_exists empty_sheet (opt_str (lead_id jane_lead)) = (False, empty_sheet)"
    by (simp only: jane_key jane_new)
  have lg1: "log_lead empty_sheet jane_lead
               (analyze_lead example_platform (groq example_services) jane_lead)
             = (True, \<lparr>cells = [headers, jane_row], outages = []\<rparr>)"
    by (simp only: jane_scored jane_logged)
  have nd2: "lead_exists \<lparr>cells = [headers, jane_row], outages = []\<rparr> (opt_str (lead_id jane_lead))
             = (False, \<lparr>cells = [headers, jane_row], outages = []\<rparr>)"
    by (simp only: jane_key jane_again)
  have lg2: "log_lead \<lparr>cells = [headers, jane_row], outages = []\<rparr> jane_lead
               (analyze_lead example_platform (groq example_services) jane_lead)
             = (True, \<lparr>cells = [headers, jane_row, jane_row], outages = []\<rparr>)"
    by (simp only: jane_scored jane_logged_again)
  have first: "process_lead example_config example_platform example_services empty_sheet jane
     = (jane_result, \<lparr>cells = [headers, jane_row], outages = []\<rparr>,
        [LeadExists (PStr ''c0ef8a4bd04e''), AnalyzeLead, LogLead, CreateEvent,
         SendNotification DISCORD, SendNotification EMAIL])"
    unfolding process_lead_scored [OF v jane_init nd1 lg1]
    by (simp add: opt_str_def jane_scored jane_event jane_all_notified truthy_simps
          jane_result_def lid ch sc)
  have second: "process_lead example_config example_platform example_services
        \<lparr>cells = [headers, jane_row], outages = []\<rparr> jane
     = (jane_result, \<lparr>cells = [headers, jane_row, jane_row], outages = []\<rparr>,
        [LeadExists (PStr ''c0ef8a4bd04e''), AnalyzeLead, LogLead, CreateEvent,
         SendNotification DISCORD, SendNotification EMAIL])"
    unfolding process_lead_scored [OF v jane_init nd2 lg2]
    by (simp add: opt_str_def jane_scored jane_event jane_all_notified truthy_simps
          jane_result_def lid ch sc)
  show ?thesis using first second by simp
qed

text \<open>
  C2. For a payload that passes validation, is constructed into a lead and is not found by
  the duplicate check: when the scorer returns a structured result, \<^verbatim>\<open>log_lead\<close> returns
  false, the calendar event is created and every configured notification is sent,
  \<^verbatim>\<open>process_lead\<close> returns success \<open>True\<close> with exactly the one error
  \<^verbatim>\<open>Failed to log to Google Sheets\<close>, and the calendar and notification steps run after
  the failed append.
\<close>

theorem storage_failure_not_blocking:
  assumes "fst (validate_lead_data pf data)"
    and "Lead_init pf data = Inr lead"
    and "lead_exists sh (opt_str (lead_id lead)) = (False, sh1)"
    and "attempts pf (groq svc) 0 max_retries = Some processed"
    and "log_lead sh1 lead processed = (False, sh2)"
    and "create_event pf svc lead processed (timezone cfg) \<noteq> None"
    and "list_all (send_notification cfg svc lead processed
                     (create_event pf svc lead processed (timezone cfg)))
           (notification_channels cfg)"
  shows "process_lead cfg pf svc sh data =
     (\<lparr>success = True,
       res_lead_id = lead_id lead,
       errors = [''Failed to log to Google Sheets''],
       warnings =
         (if p_intent_score processed = Finite (1 / 2)
          then [''AI analysis failed - using default score - manual review recommended'']
          else []),
       meet_link = Some ''https://meet.google.com/new'',
       res_intent_score = Some (p_intent_score processed)\<rparr>,
      sh2,
      [LeadExists (opt_str (lead_id lead)), AnalyzeLead, LogLead, CreateEvent]
      @ map SendNotification (notification_channels cfg))"
proof -
  have p: "analyze_lead pf (groq svc) lead = processed"
    using assms(4) by (simp add: analyze_lead_def)
  have lg: "log_lead sh1 lead (analyze_lead pf (groq svc) lead) = (False, sh2)"
    using assms(5) p by simp
  have ev: "create_event pf svc lead processed (timezone cfg) = Some ''https://meet.google.com/new''"
    using assms(6) by (rule create_event_link)
  have nf: "filter (\<lambda>ch. \<not> send_notification cfg svc lead processed
                      (Some ''https://meet.google.com/new'') ch) (notification_channels cfg) = []"
    using assms(7) ev by (simp add: filter_empty_conv list_all_iff)
  show ?thesis
    using process_lead_scored [OF assms(1) assms(2) assms(3) lg, of cfg]
    by (simp add: p ev nf truthy_simps)
qed

text \<open>
  Witness for C2: on a worksheet whose sixth client call (the append) fails, the example
  lead is processed with success and the single storage error.
\<close>

theorem storage_failure_not_blocking_witness:
  "process_lead example_config example_platform example_services flaky_sheet jane
     = (\<lparr>success = True, res_lead_id = Some ''c0ef8a4bd04e'',
         errors = [''Failed to log to Google Sheets''], warnings = [],
         meet_link = Some ''https://meet.google.com/new'', res_intent_score = Some (Finite 1)\<rparr>,
        empty_sheet,
        [LeadExists (PStr ''c0ef8a4bd04e''), AnalyzeLead, LogLead, CreateEvent,
         SendNotification DISCORD, SendNotification EMAIL])"
proof -
  have v: "fst (validate_lead_data example_platform jane)"
    by (simp add: jane_valid)
  have nd: "lead_exists flaky_sheet (opt_str (lead_id jane_lead))
              = (False, \<lparr>cells = [headers], outages = [False, False, False, True]\<rparr>)"
    unfolding jane_key
    by (simp add: lead_exists_def open_sheet1_def get_all_records_def api_call_def flaky_sheet_def
          records_of_def)
  have sc: "attempts example_platform (groq example_services) 0 max_retries = Some jane_processed"
    using jane_scored by (simp add: analyze_lead_def split: option.splits)
      (simp add: max_retries_def numeral_3_eq_3 attempt_def example_services_def example_reply_def
         ProcessedLead_init_def ProcessedLead_fields_def)
  have lg: "log_lead \<lparr>cells = [headers], outages = [False, False, False, True]\<rparr> jane_lead
              jane_processed = (False, empty_sheet)"
    unfolding log_lead_def jane_key
    by (simp add: lead_exists_def open_sheet1_def get_all_records_def api_call_def records_of_def
          append_row_def empty_sheet_def)
  have ev: "create_event example_platform example_services jane_lead jane_processed
              (timezone example_config) \<noteq> None"
    by (simp add: jane_event)
  have nt: "list_all (send_notification example_config example_services jane_lead jane_processed
              (create_event example_platform example_services jane_lead jane_processed
                 (timezone example_config)))
              (notification_channels example_config)"
    by (simp add: list_all_iff jane_notified)
  show ?thesis
    using storage_failure_not_blocking [OF v jane_init nd sc lg ev nt]
    by (simp add: jane_lead_def jane_processed_def opt_str_def example_config_def)
qed

text \<open>
  C3. \<^verbatim>\<open>process_lead\<close> returns a result for every payload. When the body of its
  \<^verbatim>\<open>try\<close> block finishes, the result is the body's; when an exception leaves the body,
  the result has success \<open>False\<close>, the single error \<^verbatim>\<open>Unexpected error: ...\<close> and every
  other field at its initial value, the worksheet is untouched and no collaborator was
  called.
\<close>

theorem process_lead_catches:
  "(case workflow_body cfg pf svc sh data initial_result of
      (None, res, rest) \<Rightarrow> process_lead cfg pf svc sh data = (res, rest)
    | (Some e, res, rest) \<Rightarrow>
        process_lead cfg pf svc sh data =
          (\<lparr>success = False, res_lead_id = None,
            errors = [''Unexpected error: '' @ exn_str e], warnings = [],
            meet_link = None, res_intent_score = None\<rparr>, sh, []))"
proof (cases "workflow_body cfg pf svc sh data initial_result")
  case (fields ex res sh' calls)
  show ?thesis
  proof (cases ex)
    case None
    then show ?thesis using fields by (simp add: process_lead_def)
  next
    case (Some e)
    then have "res = initial_result \<and> sh' = sh \<and> calls = []"
      using fields workflow_body_raises by blast
    then show ?thesis
      using fields Some by (simp add: process_lead_def initial_result_def)
  qed
qed

text \<open>
  Witness for C3: a payload with a key that \<^verbatim>\<open>Lead\<close> does not know makes the constructor
  raise; the caller receives the result with the one error.
\<close>

theorem process_lead_catches_witness:
  "process_lead example_config example_platform example_services empty_sheet
     (jane @ [(''utm_source'', ''newsletter'')])
   = (\<lparr>success = False, res_lead_id = None,
       errors = [''Unexpected error: '' @ exn_str (unexpected_keyword ''Lead'' ''utm_source'')],
       warnings = [], meet_link = None, res_intent_score = None\<rparr>, empty_sheet, [])"
proof -
  have li: "Lead_init example_platform (jane @ [(''utm_source'', ''newsletter'')])
              = Inl (unexpected_keyword ''Lead'' ''utm_source'')"
    by (simp add: Lead_init_def jane_def Lead_fields_def)
  have wb: "workflow_body example_config example_platform example_services empty_sheet
              (jane @ [(''utm_source'', ''newsletter'')]) initial_result
            = (Some (unexpected_keyword ''Lead'' ''utm_source''), initial_result, empty_sheet, [])"
    by (simp add: workflow_body_def valid_append li)
  show ?thesis
    using process_lead_catches [of example_config example_platform example_services empty_sheet
        "jane @ [(''utm_source'', ''newsletter'')]"]
    by (simp add: wb)
qed

text \<open>
  C4. If each of the three scoring attempts fails, \<^verbatim>\<open>analyze_lead\<close> returns the lead's own
  name, phone, car model and appointment time with the score 0.5. For a payload that
  reaches the scoring step, the result then carries that score and the manual-review
  warning; and in general the warning is in the result exactly when the returned score
  equals 0.5.
\<close>

theorem scoring_fallback_manual_review:
  assumes "fst (validate_lead_data pf data)"
    and "Lead_init pf data = Inr lead"
    and "fst (lead_exists sh (opt_str (lead_id lead))) = False"
  shows "((\<forall>i<3. isl (attempt pf (replies i))) \<longrightarrow>
            analyze_lead pf replies l =
              \<lparr>p_name = PStr (name l), p_phone = PStr (phone l), p_model = PStr (car_model l),
               p_datetime = PStr (appointment_datetime l), p_intent_score = Finite (1 / 2)\<rparr>)
       \<and> ((\<forall>i<3. isl (attempt pf (groq svc i))) \<longrightarrow>
            res_intent_score (fst (process_lead cfg pf svc sh data)) = Some (Finite (1 / 2))
            \<and> ''AI analysis failed - using default score - manual review recommended''
                \<in> set (warnings (fst (process_lead cfg pf svc sh data))))
       \<and> ((''AI analysis failed - using default score - manual review recommended''
             \<in> set (warnings (fst (process_lead cfg pf svc sh data))))
           = (p_intent_score (analyze_lead pf (groq svc) lead) = Finite (1 / 2)))"
proof -
  have fb: "analyze_lead pf r l' = fallback l'" if "\<forall>i<3. isl (attempt pf (r i))" for r l'
  proof -
    have "attempts pf r 0 3 = None"
      using that by (intro attempts_all_fail) simp_all
    then show ?thesis by (simp add: analyze_lead_def max_retries_def)
  qed
  obtain sh1 where nd: "lead_exists sh (opt_str (lead_id lead)) = (False, sh1)"
    using assms(3) by (cases "lead_exists sh (opt_str (lead_id lead))") simp
  obtain ok sh2 where lg: "log_lead sh1 lead (analyze_lead pf (groq svc) lead) = (ok, sh2)"
    by (cases "log_lead sh1 lead (analyze_lead pf (groq svc) lead)") simp
  note pl = process_lead_scored [OF assms(1) assms(2) nd lg, of cfg]
  have w: "(''AI analysis failed - using default score - manual review recommended''
             \<in> set (warnings (fst (process_lead cfg pf svc sh data))))
           = (p_intent_score (analyze_lead pf (groq svc) lead) = Finite (1 / 2))"
    by (cases "truthy (create_event pf svc lead (analyze_lead pf (groq svc) lead) (timezone cfg))")
       (auto simp: pl)
  have s: "res_intent_score (fst (process_lead cfg pf svc sh data))
             = Some (p_intent_score (analyze_lead pf (groq svc) lead))"
    by (simp add: pl)
  show ?thesis
    using fb [of replies l] fb [of "groq svc" lead] w s
    by (simp add: fallback_def)
qed

text \<open>
  Witness for C4: a scorer whose three answers are malformed JSON.
\<close>

theorem scoring_fallback_manual_review_witness:
  "analyze_lead example_platform (\<lambda>i. Malformed) jane_lead =
     \<lparr>p_name = PStr ''Jane Doe'', p_phone = PStr ''+1-212-555-0100'',
      p_model = PStr ''Luxury Sedan X'', p_datetime = PStr ''2030-01-01T10:00:00'',
      p_intent_score = Finite (1 / 2)\<rparr>
   \<and> res_intent_score (fst (process_lead example_config example_platform silent_services
         empty_sheet jane)) = Some (Finite (1 / 2))
   \<and> ''AI analysis failed - using default score - manual review recommended''
       \<in> set (warnings (fst (process_lead example_config example_platform silent_services
             empty_sheet jane)))"
proof -
  have v: "fst (validate_lead_data example_platform jane)"
    by (simp add: jane_valid)
  have nd: "fst (lead_exists empty_sheet (opt_str (lead_id jane_lead))) = False"
    by (simp add: jane_key jane_new)
  have f1: "\<forall>i<3. isl (attempt example_platform ((\<lambda>i::nat. Malformed) i))"
    by (simp add: attempt_def)
  have f2: "\<forall>i<3. isl (attempt example_platform (groq silent_services i))"
    by (simp add: attempt_def silent_services_def)
  show ?thesis
    using scoring_fallback_manual_review [OF v jane_init nd,
        of "\<lambda>i. Malformed" jane_lead silent_services example_config] f1 f2
    by (simp add: jane_lead_def)
qed

text \<open>
  C5. If a required field is missing or empty, \<^verbatim>\<open>validate_lead_data\<close> returns \<open>False\<close> with
  exactly one \<^verbatim>\<open>Missing required field\<close> error for each such field, in the order name,
  email, phone, car_model, appointment_datetime, and no other error. For every payload
  the flag is \<open>True\<close> iff the error list is empty.
\<close>

theorem validate_missing_fields:
  "(list_ex (missing data) [''name'', ''email'', ''phone'', ''car_model'', ''appointment_datetime''] \<longrightarrow>
      validate_lead_data pf data =
        (False, map (\<lambda>field. ''Missing required field: '' @ field)
                  (filter (missing data)
                     [''name'', ''email'', ''phone'', ''car_model'', ''appointment_datetime''])))
   \<and> fst (validate_lead_data pf data) = (snd (validate_lead_data pf data) = [])"
proof -
  let ?req = "[''name'', ''email'', ''phone'', ''car_model'', ''appointment_datetime'']"
  have a: "list_ex (missing data) ?req \<Longrightarrow> filter (missing data) ?req \<noteq> []"
    by (simp only: filter_empty_conv list_ex_iff) blast
  have "list_ex (missing data) ?req \<Longrightarrow>
      validate_lead_data pf data =
        (False, map (\<lambda>field. ''Missing required field: '' @ field) (filter (missing data) ?req))"
    using a by (simp add: validate_lead_data_def required_fields_def Let_def)
  moreover have "fst (validate_lead_data pf data) = (snd (validate_lead_data pf data) = [])"
    by (simp add: validate_lead_data_def Let_def)
  ultimately show ?thesis by blast
qed

text \<open>
  Witness for C5: a payload with a name, an empty phone and nothing else.
\<close>

theorem validate_missing_fields_witness:
  "validate_lead_data example_platform [(''name'', ''Jane Doe''), (''phone'', [])]
     = (False, [''Missing required field: email'', ''Missing required field: phone'',
                ''Missing required field: car_model'',
                ''Missing required field: appointment_datetime''])"
proof -
  have m: "list_ex (missing [(''name'', ''Jane Doe''), (''phone'', [])])
             [''name'', ''email'', ''phone'', ''car_model'', ''appointment_datetime'']"
    by (simp add: missing_def)
  show ?thesis
    using validate_missing_fields [of "[(''name'', ''Jane Doe''), (''phone'', [])]" example_platform] m
    by (simp add: missing_def)
qed

text \<open>
  C6. Two \<^verbatim>\<open>Lead\<close> constructions with the same email and phone (ASCII text) that supply
  no \<^verbatim>\<open>lead_id\<close> (\<^verbatim>\<open>None\<close> or empty) get the same \<^verbatim>\<open>lead_id\<close>, whatever their other
  fields and whatever the clock: the first 12 characters of the MD5 hex digest of the
  concatenation of email and phone with every capital letter replaced by its small
  letter, which are 12 hexadecimal characters.
\<close>

theorem lead_id_deterministic:
  assumes "email l1 = email l2" and "phone l1 = phone l2"
    and "\<not> truthy (lead_id l1)" and "\<not> truthy (lead_id l2)"
    and "ascii_text (email l1 @ phone l1)"
  shows "lead_id (post_init pf1 l1) = lead_id (post_init pf2 l2)
       \<and> lead_id (post_init pf1 l1)
           = Some (take 12 (md5_hexdigest (lowercased (email l1 @ phone l1))))
       \<and> length (take 12 (md5_hexdigest (lowercased (email l1 @ phone l1)))) = 12
       \<and> list_all hexchar (take 12 (md5_hexdigest (lowercased (email l1 @ phone l1))))"
proof -
  have "lead_id (post_init pf l) = Some (take 12 (md5_hexdigest (lowercased (email l @ phone l))))"
    if "\<not> truthy (lead_id l)" for pf l
    using that by (simp add: post_init_def Let_def lower_lowercased)
  then have "lead_id (post_init pf1 l1)
               = Some (take 12 (md5_hexdigest (lowercased (email l1 @ phone l1))))"
    and "lead_id (post_init pf2 l2)
               = Some (take 12 (md5_hexdigest (lowercased (email l2 @ phone l2))))"
    using assms(3,4) by blast+
  then show ?thesis
    using assms(1,2)
    by (simp add: length_md5_hexdigest hexchar_md5_hexdigest list_all_take)
qed

text \<open>
  Witness for C6: two leads that share only the email \<^verbatim>\<open>Jane@Corp.COM\<close> and the phone.
  Their id is \<^verbatim>\<open>c0ef8a4bd04e\<close>, the digest prefix of \<^verbatim>\<open>jane@corp.com+1-212-555-0100\<close>.
\<close>

theorem lead_id_deterministic_witness:
  "lead_id (post_init example_platform upper_lead)
     = lead_id (post_init example_platform upper_lead_again)
   \<and> lead_id (post_init example_platform upper_lead) = Some ''c0ef8a4bd04e''
   \<and> lowercased ''Jane@Corp.COM+1-212-555-0100'' = ''jane@corp.com+1-212-555-0100''"
proof -
  have h: "email upper_lead = email upper_lead_again" "phone upper_lead = phone upper_lead_again"
    "\<not> truthy (lead_id upper_lead)" "\<not> truthy (lead_id upper_lead_again)"
    "ascii_text (email upper_lead @ phone upper_lead)"
    by (simp_all add: upper_lead_def upper_lead_again_def truthy_def ascii_text_def)
  have l: "lowercased (email upper_lead @ phone upper_lead) = ''jane@corp.com+1-212-555-0100''"
    unfolding lower_lowercased [symmetric]
    by (simp add: upper_lead_def lower_def lower_char_def)
  have l': "lowercased ''Jane@Corp.COM+1-212-555-0100'' = ''jane@corp.com+1-212-555-0100''"
    unfolding lower_lowercased [symmetric]
    by (simp add: lower_def lower_char_def)
  have d: "take 12 (md5_hexdigest ''jane@corp.com+1-212-555-0100'') = ''c0ef8a4bd04e''"
    by (simp add: jane_md5)
  have "lead_id (post_init example_platform upper_lead)
          = lead_id (post_init example_platform upper_lead_again)
      \<and> lead_id (post_init example_platform upper_lead)
          = Some (take 12 (md5_hexdigest (lowercased (email upper_lead @ phone upper_lead))))"
    using lead_id_deterministic [OF h, of example_platform example_platform] by blast
  then show ?thesis
    unfolding l d using l' by blast
qed

text \<open>
  C7. The \<^verbatim>\<open>ProcessedLead\<close> built from a structured response has its score clamped into
  [0.0, 1.0] (NaN and the infinities included), and so has every \<^verbatim>\<open>ProcessedLead\<close> that
  \<^verbatim>\<open>analyze_lead\<close> returns, the fallback with its 0.5 included.
\<close>

theorem analyze_lead_score_bounded:
  "(attempt pf reply = Inr p \<longrightarrow> in_unit (p_intent_score p))
   \<and> in_unit (p_intent_score (analyze_lead pf replies lead))"
proof -
  have "in_unit (p_intent_score (fallback lead))"
    by (simp add: fallback_def in_unit_def)
  then have "in_unit (p_intent_score (analyze_lead pf replies lead))"
    by (auto simp: analyze_lead_def split: option.splits dest: attempts_in_unit)
  then show ?thesis
    using attempt_in_unit by blast
qed

text \<open>
  Witness for C7: a response with the score 1.2 yields the score 1.0.
\<close>

theorem analyze_lead_score_bounded_witness:
  "attempt example_platform example_reply = Inr jane_processed
   \<and> in_unit (p_intent_score jane_processed)
   \<and> in_unit (p_intent_score (analyze_lead example_platform (\<lambda>i. Raises) jane_lead))"
proof -
  have a: "attempt example_platform example_reply = Inr jane_processed"
    by (simp add: attempt_def example_reply_def py_max_def py_min_def ProcessedLead_init_def
          ProcessedLead_fields_def jane_processed_def)
  show ?thesis
    using analyze_lead_score_bounded [of example_platform example_reply jane_processed
        "\<lambda>i. Raises" jane_lead] a
    by simp
qed

text \<open>
  C8. \<^verbatim>\<open>validate_datetime\<close> returns \<open>True\<close> exactly when the text is not empty and parses
  (after \<^verbatim>\<open>Z\<close> is replaced by \<^verbatim>\<open>+00:00\<close>); a parsed time earlier than five minutes ago
  is accepted all the same, and only logged.
\<close>

theorem validate_datetime_accepts_past:
  "fst (validate_datetime pf s) =
     (s \<noteq> [] \<and> fromisoformat pf (replace_char CHR ''Z'' ''+00:00'' s) \<noteq> None)
   \<and> (s \<noteq> [] \<and> fromisoformat pf (replace_char CHR ''Z'' ''+00:00'' s) = Some dt
        \<and> dt_less dt (minus_minutes (datetime_now pf (tzinfo dt)) 5)
      \<longrightarrow> validate_datetime pf s = (True, [PastAppointment s]))"
  by (auto simp: validate_datetime_def Let_def split: option.splits)

text \<open>
  Witness for C8: an appointment almost ten years before the clock's time.
\<close>

theorem validate_datetime_accepts_past_witness:
  "validate_datetime example_platform ''2020-01-01T00:00:00Z''
     = (True, [PastAppointment ''2020-01-01T00:00:00Z''])"
proof -
  have r: "replace_char CHR ''Z'' ''+00:00'' ''2020-01-01T00:00:00Z'' = ''2020-01-01T00:00:00+00:00''"
    by (simp add: replace_char_def)
  have p: "fromisoformat example_platform ''2020-01-01T00:00:00+00:00''
             = Some \<lparr>wall = 63713433600000000, tzinfo = Some 0\<rparr>"
    by (simp add: example_platform_def)
  have b: "dt_less \<lparr>wall = 63713433600000000, tzinfo = Some 0\<rparr>
             (minus_minutes (datetime_now example_platform
                (tzinfo \<lparr>wall = 63713433600000000, tzinfo = Some 0\<rparr>)) 5)"
    by (simp add: dt_less_def instant_def minus_minutes_def datetime_now_def example_platform_def)
  show ?thesis
    using validate_datetime_accepts_past [of example_platform "''2020-01-01T00:00:00Z''"
        "\<lparr>wall = 63713433600000000, tzinfo = Some 0\<rparr>"] p b
    unfolding r by simp
qed




text \<open>
  C10 (as amended). For a payload that passes validation and has no key other than the
  fields of \<^verbatim>\<open>Lead\<close>: the lead is constructed; a non-empty \<^verbatim>\<open>lead_id\<close> of the payload is
  the lead's id, the result's \<^verbatim>\<open>lead_id\<close> and the key of the duplicate check, with no
  hashing of email and phone; a non-empty \<^verbatim>\<open>timestamp\<close> of the payload is the lead's
  timestamp.
\<close>

theorem caller_supplied_lead_id:
  assumes "fst (validate_lead_data pf data)"
    and "list_all (\<lambda>k. k \<in> set Lead_fields) (map fst data)"
  shows "\<exists>lead rest.
           Lead_init pf data = Inr lead
         \<and> (\<forall>v. map_of data ''lead_id'' = Some v \<and> v \<noteq> [] \<longrightarrow>
                lead_id lead = Some v
              \<and> res_lead_id (fst (process_lead cfg pf svc sh data)) = Some v
              \<and> snd (snd (process_lead cfg pf svc sh data)) = LeadExists (PStr v) # rest)
         \<and> (\<forall>t. map_of data ''timestamp'' = Some t \<and> t \<noteq> [] \<longrightarrow> timestamp lead = Some t)"
proof -
  obtain n e p c a where li: "Lead_init pf data = Inr (post_init pf
                \<lparr>name = n, email = e, phone = p, car_model = c, appointment_datetime = a,
                 intent_score = map_of data ''intent_score'',
                 timestamp = map_of data ''timestamp'',
                 lead_id = map_of data ''lead_id''\<rparr>)" (is "_ = Inr ?lead")
    using Lead_init_valid [OF assms] by blast
  obtain errs where v: "validate_lead_data pf data = (True, errs)"
    using assms(1) by (cases "validate_lead_data pf data") simp
  have id: "lead_id ?lead = Some v" if "map_of data ''lead_id'' = Some v" "v \<noteq> []" for v
    using that by (simp add: post_init_def Let_def truthy_simps)
  have ts: "timestamp ?lead = Some t" if "map_of data ''timestamp'' = Some t" "t \<noteq> []" for t
    using that by (simp add: post_init_def Let_def truthy_simps)
  have res: "res_lead_id (fst (process_lead cfg pf svc sh data)) = lead_id ?lead"
    by (simp add: process_lead_def workflow_body_def v li Let_def initial_result_def
          foldl_notify_step split: prod.splits bool.splits)
  have calls: "snd (snd (process_lead cfg pf svc sh data)) = LeadExists (opt_str (lead_id ?lead)) #
      tl (snd (snd (process_lead cfg pf svc sh data)))"
    by (simp add: process_lead_def workflow_body_def v li Let_def initial_result_def
          split: prod.splits bool.splits)
  show ?thesis
    apply (rule exI [of _ ?lead])
    apply (rule exI [of _ "tl (snd (snd (process_lead cfg pf svc sh data)))"])
    using li id ts res calls by (auto simp: opt_str_def)
qed

text \<open>
  Witness for C10: the example lead with an id and a timestamp of the caller's.
\<close>

theorem caller_supplied_lead_id_witness:
  "res_lead_id (fst (process_lead example_config example_platform example_services empty_sheet vip))
     = Some ''VIP-0001''
   \<and> hd (snd (snd (process_lead example_config example_platform example_services empty_sheet vip)))
     = LeadExists (PStr ''VIP-0001'')"
proof -
  have v: "fst (validate_lead_data example_platform vip)"
    by (simp add: vip_def valid_append)
  have k: "list_all (\<lambda>k. k \<in> set Lead_fields) (map fst vip)"
    by (simp add: vip_def jane_def Lead_fields_def)
  have i: "map_of vip ''lead_id'' = Some ''VIP-0001''"
    by (simp add: vip_def jane_def)
  show ?thesis
    using caller_supplied_lead_id [OF v k, of example_config example_services empty_sheet] i
    by auto
qed

text \<open>
  Counterexample to C10 as stated: a payload that passes validation and carries a
  non-empty \<^verbatim>\<open>lead_id\<close>, and one key that \<^verbatim>\<open>Lead\<close> does not know. No lead is constructed:
  the result's \<^verbatim>\<open>lead_id\<close> stays \<^verbatim>\<open>None\<close> and no duplicate check is made.
\<close>

theorem unknown_key_discards_lead_id:
  "fst (validate_lead_data example_platform tagged)
   \<and> map_of tagged ''lead_id'' = Some ''VIP-0001''
   \<and> res_lead_id (fst (process_lead example_config example_platform example_services
        empty_sheet tagged)) = None
   \<and> snd (snd (process_lead example_config example_platform example_services
        empty_sheet tagged)) = []"
proof -
  have li: "Lead_init example_platform tagged = Inl (unexpected_keyword ''Lead'' ''utm_source'')"
    by (simp add: Lead_init_def tagged_def jane_def Lead_fields_def)
  have v: "validate_lead_data example_platform tagged = (True, [])"
    by (simp add: tagged_def valid_append)
  have "process_lead example_config example_platform example_services empty_sheet tagged
     = (initial_result\<lparr>errors := [''Unexpected error: '' @ exn_str (unexpected_keyword ''Lead'' ''utm_source'')]\<rparr>, empty_sheet, [])"
    by (simp add: process_lead_def workflow_body_def v li initial_result_def)
  then show ?thesis
    by (simp add: v initial_result_def) (simp add: tagged_def jane_def)
qed

section \<open>Further properties of the workflow\<close>

text \<open>
  Validation is a hard stop. A payload that fails validation ends the workflow at once: the result has success
  \<open>False\<close> and the validator's errors, the worksheet is untouched and no collaborator is
  called.
\<close>

theorem invalid_payload_rejected:
  assumes "\<not> fst (validate_lead_data pf data)"
  shows "process_lead cfg pf svc sh data =
     (\<lparr>success = False, res_lead_id = None, errors = snd (validate_lead_data pf data),
       warnings = [], meet_link = None, res_intent_score = None\<rparr>, sh, [])"
proof -
  obtain errs where v: "validate_lead_data pf data = (False, errs)"
    using assms by (cases "validate_lead_data pf data") simp
  show ?thesis
    by (simp add: process_lead_def workflow_body_def v initial_result_def)
qed

text \<open>
  An instance: a payload without phone, car model and appointment.
\<close>

theorem invalid_payload_rejected_witness:
  "process_lead example_config example_platform example_services empty_sheet
     [(''name'', ''Jane Doe''), (''email'', ''jane.corp.com'')] =
     (\<lparr>success = False, res_lead_id = None,
       errors = [''Missing required field: phone'', ''Missing required field: car_model'',
                 ''Missing required field: appointment_datetime''],
       warnings = [], meet_link = None, res_intent_score = None\<rparr>, empty_sheet, [])"
proof -
  have v: "validate_lead_data example_platform [(''name'', ''Jane Doe''), (''email'', ''jane.corp.com'')]
     = (False, [''Missing required field: phone'', ''Missing required field: car_model'',
                 ''Missing required field: appointment_datetime''])"
    by (simp add: validate_lead_data_def required_fields_def missing_def)
  have h: "\<not> fst (validate_lead_data example_platform [(''name'', ''Jane Doe''), (''email'', ''jane.corp.com'')])"
    by (simp add: v)
  show ?thesis
    using invalid_payload_rejected [OF h, of example_config example_services empty_sheet]
    by (simp add: v)
qed

text \<open>
  A duplicate is a hard stop. When \<^verbatim>\<open>lead_exists\<close> answers true for the lead's id, the workflow ends with the single
  error \<^verbatim>\<open>Duplicate lead - already processed\<close>, success \<open>False\<close>, and no scoring, storage,
  scheduling or notification.
\<close>

theorem duplicate_rejected:
  assumes "fst (validate_lead_data pf data)"
    and "Lead_init pf data = Inr lead"
    and "lead_exists sh (opt_str (lead_id lead)) = (True, sh1)"
  shows "process_lead cfg pf svc sh data =
     (\<lparr>success = False, res_lead_id = lead_id lead,
       errors = [''Duplicate lead - already processed''],
       warnings = [], meet_link = None, res_intent_score = None\<rparr>, sh1,
      [LeadExists (opt_str (lead_id lead))])"
proof -
  obtain errs where v: "validate_lead_data pf data = (True, errs)"
    using assms(1) by (cases "validate_lead_data pf data") simp
  show ?thesis
    by (simp add: process_lead_def workflow_body_def v assms(2,3) Let_def initial_result_def)
qed

text \<open>
  An instance: once the example lead is stored, a payload whose own \<^verbatim>\<open>lead_id\<close> is the
  stored email address is rejected as a duplicate.
\<close>

theorem duplicate_rejected_witness:
  "process_lead example_config example_platform example_services
     \<lparr>cells = [headers, jane_row], outages = []\<rparr> resubmitted =
     (\<lparr>success = False, res_lead_id = Some ''jane@corp.com'',
       errors = [''Duplicate lead - already processed''],
       warnings = [], meet_link = None, res_intent_score = None\<rparr>,
      \<lparr>cells = [headers, jane_row], outages = []\<rparr>,
      [LeadExists (PStr ''jane@corp.com'')])"
proof -
  let ?lead = "jane_lead\<lparr>lead_id := Some ''jane@corp.com''\<rparr>"
  have v: "fst (validate_lead_data example_platform resubmitted)"
    by (simp add: resubmitted_def valid_append)
  have li: "Lead_init example_platform resubmitted = Inr ?lead"
    by (simp add: Lead_init_def resubmitted_def jane_def Lead_fields_def post_init_def truthy_def
          Let_def example_platform_def datetime_now_def jane_lead_def)
  have k: "opt_str (lead_id ?lead) = PStr ''jane@corp.com''"
    by (simp add: opt_str_def)
  have dup: "lead_exists \<lparr>cells = [headers, jane_row], outages = []\<rparr> (opt_str (lead_id ?lead))
               = (True, \<lparr>cells = [headers, jane_row], outages = []\<rparr>)"
    unfolding k
    by (simp add: lead_exists_def open_sheet1_def get_all_records_def api_call_def
          records_of_def headers_def jane_row_def record_get_def)
  show ?thesis
    using duplicate_rejected [OF v li dup, of example_config example_services]
    by (simp add: opt_str_def)
qed

text \<open>
  Success needs all three. A result with success \<open>True\<close> is returned only for a payload that passed validation,
  was constructed into a lead, and was not found by the duplicate check.
\<close>

theorem success_only_if_new_and_valid:
  assumes "success (fst (process_lead cfg pf svc sh data))"
  shows "fst (validate_lead_data pf data)
       \<and> (\<exists>lead. Lead_init pf data = Inr lead
                 \<and> \<not> fst (lead_exists sh (opt_str (lead_id lead))))"
  using assms
  by (auto simp: process_lead_def workflow_body_def Let_def initial_result_def
           split: prod.splits if_splits sum.splits bool.splits option.splits)

text \<open>
  An instance: the example lead on the empty worksheet.
\<close>

theorem success_only_if_new_and_valid_witness:
  "fst (validate_lead_data example_platform jane)
   \<and> Lead_init example_platform jane = Inr jane_lead
   \<and> \<not> fst (lead_exists empty_sheet (opt_str (lead_id jane_lead)))"
proof -
  have s: "success (fst (process_lead example_config example_platform example_services empty_sheet jane))"
  proof -
    have v: "fst (validate_lead_data example_platform jane)"
      by (simp add: jane_valid)
    have nd: "lead_exists empty_sheet (opt_str (lead_id jane_lead)) = (False, empty_sheet)"
      by (simp only: jane_key jane_new)
    obtain ok sh2 where lg: "log_lead empty_sheet jane_lead
        (analyze_lead example_platform (groq example_services) jane_lead) = (ok, sh2)"
      by (cases "log_lead empty_sheet jane_lead
        (analyze_lead example_platform (groq example_services) jane_lead)") simp
    show ?thesis
      by (simp add: process_lead_scored [OF v jane_init nd lg])
  qed
  show ?thesis
    using success_only_if_new_and_valid [OF s] by (auto simp: jane_init)
qed

text \<open>
  The shape of an email. An address that \<^verbatim>\<open>validate_email\<close> accepts contains an \<^verbatim>\<open>@\<close> and a dot.
\<close>

theorem validate_email_needs_at_and_dot:
  assumes "validate_email e"
  shows "CHR ''@'' \<in> set e \<and> CHR ''.'' \<in> set e"
proof -
  have m: "re_match email_pattern e"
    using assms by (simp add: validate_email_def split: if_splits)
  obtain p1 r1 where a: "e = p1 @ r1"
    "re_match [Lit CHR ''@'', Plus (\<lambda>c. alpha c \<or> digit c \<or> c \<in> set ''.-''),
               Lit CHR ''.'', AtLeast 2 alpha] r1"
    using re_match_step [OF m [unfolded email_pattern_def] bounds.simps(3)] by blast
  obtain p2 r2 where b: "r1 = p2 @ r2" "list_all (\<lambda>x. x = CHR ''@'') p2" "1 \<le> length p2"
    "re_match [Plus (\<lambda>c. alpha c \<or> digit c \<or> c \<in> set ''.-''), Lit CHR ''.'', AtLeast 2 alpha] r2"
    using re_match_step [OF a(2) bounds.simps(1)] by blast
  obtain p3 r3 where c: "r2 = p3 @ r3" "re_match [Lit CHR ''.'', AtLeast 2 alpha] r3"
    using re_match_step [OF b(4) bounds.simps(3)] by blast
  obtain p4 r4 where d: "r3 = p4 @ r4" "list_all (\<lambda>x. x = CHR ''.'') p4" "1 \<le> length p4"
    using re_match_step [OF c(2) bounds.simps(1)] by blast
  have "CHR ''@'' \<in> set p2"
    using b(2,3) by (cases p2) auto
  moreover have "CHR ''.'' \<in> set p4"
    using d(2,3) by (cases p4) auto
  ultimately show ?thesis
    using a(1) b(1) c(1) d(1) by auto
qed

text \<open>
  An instance: the address \<^verbatim>\<open>a@b.co\<close> is accepted.
\<close>

theorem validate_email_needs_at_and_dot_witness:
  "validate_email ''a@b.co'' \<and> CHR ''@'' \<in> set ''a@b.co'' \<and> CHR ''.'' \<in> set ''a@b.co''"
proof -
  have v: "validate_email ''a@b.co''"
    by (simp add: validate_email_def email_pattern_def alpha_def digit_def in_range_def)
  show ?thesis
    using validate_email_needs_at_and_dot [OF v] v by simp
qed

end
